theory Spec2Isabelle
  imports Main "HOL-Library.Sublist"
begin

section \<open>The blog server of src/index.js\<close>

text \<open>
  The server is one Express application: a bearer-token gate (\<open>getTokenFromHeader\<close>,
  \<open>authenticateToken\<close>), the multer upload middleware, the signup and login routes and
  the article routes. Its collaborators are libraries: mongoose (the document store),
  jsonwebtoken, bcryptjs, multer, cloudinary and Express itself. The handlers are
  embedded as functions on an explicit store; what a library computes is either a
  parameter (\<open>lib\<close>: the MAC, the token encoding, the password hash), an input of the
  single request (\<open>world\<close>: the clock, the generated ObjectId, the salt, the
  provider's answer), or a small definition that follows the library's documented
  behaviour and says so. The store is reachable throughout: its operations fail only
  the way mongoose makes them fail (cast, validation, duplicate key). Request bodies
  carry strings; a field that is not sent is undefined (\<open>None\<close>). The routes that take
  no part in what is proved below (logout, verify, the list of articles, health) are
  left out.
\<close>

subsection \<open>Documents and the store\<close>

type_synonym objectId = string

text \<open>
  \<open>UserSchema\<close> and \<open>BlogPostSchema\<close>, both with \<open>timestamps: true\<close>. An ObjectId is kept
  in its canonical form, the 24 lower-case hex digits that \<open>toString()\<close> prints. The
  image reference is a string in every stored article: create and update, the only
  writers, always pass one (\<open>''''\<close> for no image).
\<close>

record user_doc =
  user_id :: objectId
  user_username :: string
  user_email :: string
  user_password :: string
  user_createdAt :: nat
  user_updatedAt :: nat

record blogpost_doc =
  post_id :: objectId
  title :: string
  subtitle :: "string option"
  content :: string
  imageUrl :: string
  author :: objectId
  createdAt :: nat
  updatedAt :: nat

record store =
  users :: "user_doc list"
  posts :: "blogpost_doc list"

datatype store_error = CastError | ValidationError | DuplicateKey

subsection \<open>Tokens\<close>

text \<open>
  The payload of a token as the gate reads it: the claims \<open>id\<close> and \<open>username\<close> that
  this server signs, and the registered claims \<open>iat\<close>, \<open>nbf\<close> and \<open>exp\<close>, each of which a
  token may carry or not. They are numeric dates in seconds; a fractional one acts as
  the next whole second in both comparisons of \<open>verify\<close>, and one that is not a number
  makes \<open>verify\<close> fail like a token that does not decode. A token is the encoding of
  the algorithm its header names, a payload and a signature. The algorithms
  \<open>jwt.verify\<close> allows for a secret that is a string are the three HMACs; every other
  one, \<open>none\<close> included, is \<open>OtherAlg\<close>. Verification looks at neither \<open>id\<close> nor
  \<open>username\<close>; a payload that lacks one of them is no part of the model.
\<close>

record jwt_payload =
  claim_id :: string
  claim_username :: string
  claim_iat :: "int option"
  claim_nbf :: "int option"
  claim_exp :: "int option"

datatype jwt_alg = HS256 | HS384 | HS512 | OtherAlg

datatype jws = JWS jwt_alg jwt_payload string

datatype jwt_error = JsonWebTokenError | NotBeforeError | TokenExpiredError

subsection \<open>Libraries, configuration and the inputs of one request\<close>

record lib =
  hmac :: "jwt_alg \<Rightarrow> string \<Rightarrow> jwt_payload \<Rightarrow> string"
  jwt_encode :: "jws \<Rightarrow> string"
  jwt_decode :: "string \<Rightarrow> jws option"
  bcrypt_hash :: "string \<Rightarrow> string \<Rightarrow> string"
  bcrypt_compare :: "string \<Rightarrow> string \<Rightarrow> bool"

text \<open>\<open>process.env\<close>, as far as the handlers read it.\<close>

record process_env =
  JWT_SECRET :: "string option"

text \<open>
  What one request draws from outside: \<open>Date.now()\<close> in milliseconds, the ObjectId
  that \<open>new User\<close> or \<open>new BlogPost\<close> generates, the salt bcrypt draws, and the answer
  of the storage provider to an upload (\<open>Inl\<close> its error, \<open>Inr\<close> the \<open>secure_url\<close>).
\<close>

record world =
  clock :: nat
  new_ObjectId :: objectId
  salt :: string
  upload_stream :: "nat list \<Rightarrow> string + string"

subsection \<open>Requests and responses\<close>

record upload_file =
  mimetype :: string
  buffer :: "nat list"

record request =
  headers :: "string \<rightharpoonup> string"
  params_id :: string
  req_body :: "string \<rightharpoonup> string"
  file_part :: "upload_file option"

record user_view =
  view_id :: objectId
  view_username :: string
  view_email :: string

datatype json =
    Message string
  | AuthBody string string user_view
  | PostBody blogpost_doc "(objectId \<times> string) option"
  | JsonNull
  | ErrorPage

record response =
  status :: nat
  res_body :: json

text \<open>
  What a route leaves behind: the response, the store, and the buffers handed to the
  storage provider, in the order of the calls.
\<close>

record outcome =
  resp :: response
  db :: store
  uploads :: "nat list list"

definition reply :: "nat \<Rightarrow> json \<Rightarrow> store \<Rightarrow> nat list list \<Rightarrow> outcome" where
  "reply code b s ups = \<lparr>resp = \<lparr>status = code, res_body = b\<rparr>, db = s, uploads = ups\<rparr>"

subsection \<open>JavaScript helpers\<close>

text \<open>\<open>String.prototype.split\<close> on a one-character separator.\<close>

fun split_on :: "char \<Rightarrow> string \<Rightarrow> string list" where
  "split_on c [] = [[]]"
| "split_on c (x # xs) =
     (if x = c then [] # split_on c xs
      else (x # hd (split_on c xs)) # tl (split_on c xs))"

definition startsWith :: "string \<Rightarrow> string \<Rightarrow> bool" where
  "startsWith s p = prefix p s"

text \<open>\<open>a || b\<close> and \<open>!a\<close> on a string that may be undefined.\<close>

definition js_or :: "string option \<Rightarrow> string option \<Rightarrow> string option" where
  "js_or a b = (case a of None \<Rightarrow> b | Some s \<Rightarrow> if s = [] then b else Some s)"

definition falsy :: "string option \<Rightarrow> bool" where
  "falsy a = (case a of None \<Rightarrow> True | Some s \<Rightarrow> s = [])"

subsection \<open>mongoose\<close>

text \<open>
  Casting a string to an ObjectId (bson: 24 hex digits of either case, anything else
  throws), with the canonical lower-case form as the result.
\<close>

definition is_hex :: "char \<Rightarrow> bool" where
  "is_hex c = (c \<in> set ''0123456789abcdefABCDEF'')"

definition lower_hex :: "char \<Rightarrow> char" where
  "lower_hex c = (case map_of (zip ''ABCDEF'' ''abcdef'') c of None \<Rightarrow> c | Some d \<Rightarrow> d)"

definition castObjectId :: "string \<Rightarrow> objectId option" where
  "castObjectId s =
     (if length s = 24 \<and> list_all is_hex s then Some (map lower_hex s) else None)"

text \<open>The \<open>required\<close> validator of a String path: undefined and the empty string fail.\<close>

definition required :: "string option \<Rightarrow> bool" where
  "required v = (case v of None \<Rightarrow> False | Some s \<Rightarrow> s \<noteq> [])"

text \<open>\<open>Model.findOne(filter)\<close>: the first matching document.\<close>

definition findOne :: "('a \<Rightarrow> bool) \<Rightarrow> 'a list \<Rightarrow> 'a option" where
  "findOne f ds = find f ds"

text \<open>\<open>BlogPost.findById(id)\<close>: the cast of the id throws before the lookup.\<close>

definition BlogPost_findById :: "store \<Rightarrow> string \<Rightarrow> store_error + blogpost_doc option" where
  "BlogPost_findById s i =
     (case castObjectId i of
        None \<Rightarrow> Inl CastError
      | Some oid \<Rightarrow> Inr (findOne (\<lambda>p. post_id p = oid) (posts s)))"

text \<open>
  \<open>populate("author", "username")\<close>: the author's \<open>_id\<close> and \<open>username\<close>, or null when no
  such user is stored.
\<close>

definition populate :: "store \<Rightarrow> blogpost_doc \<Rightarrow> json" where
  "populate s p =
     PostBody p (map_option (\<lambda>u. (user_id u, user_username u))
                   (findOne (\<lambda>u. user_id u = author p) (users s)))"

text \<open>
  \<open>new User({ username, email, password }).save()\<close>: validation of the required paths,
  then the insert under the unique indexes on \<open>_id\<close>, \<open>username\<close> and \<open>email\<close>.
\<close>

definition User_save ::
  "world \<Rightarrow> store \<Rightarrow> string option \<Rightarrow> string option \<Rightarrow> string option
     \<Rightarrow> store_error + (user_doc \<times> store)" where
  "User_save w s username email password =
     (if \<not> (required username \<and> required email \<and> required password) then Inl ValidationError
      else
        let u = \<lparr>user_id = new_ObjectId w, user_username = the username,
                 user_email = the email, user_password = the password,
                 user_createdAt = clock w, user_updatedAt = clock w\<rparr>
        in if findOne (\<lambda>d. user_id d = user_id u \<or> user_username d = user_username u
                            \<or> user_email d = user_email u) (users s) \<noteq> None
           then Inl DuplicateKey
           else Inr (u, s\<lparr>users := users s @ [u]\<rparr>))"

text \<open>
  \<open>new BlogPost({ title, subtitle, content, imageUrl, author }).save()\<close>: \<open>title\<close>,
  \<open>content\<close> and \<open>author\<close> are required, \<open>author\<close> must cast to an ObjectId.
\<close>

definition BlogPost_save ::
  "world \<Rightarrow> store \<Rightarrow> string option \<Rightarrow> string option \<Rightarrow> string option \<Rightarrow> string \<Rightarrow> string
     \<Rightarrow> store_error + (blogpost_doc \<times> store)" where
  "BlogPost_save w s t st c img a =
     (if \<not> (required t \<and> required c) then Inl ValidationError
      else case castObjectId a of
        None \<Rightarrow> Inl ValidationError
      | Some owner \<Rightarrow>
          let p = \<lparr>post_id = new_ObjectId w, title = the t, subtitle = st, content = the c,
                   imageUrl = img, author = owner, createdAt = clock w, updatedAt = clock w\<rparr>
          in if findOne (\<lambda>d. post_id d = post_id p) (posts s) \<noteq> None
             then Inl DuplicateKey
             else Inr (p, s\<lparr>posts := posts s @ [p]\<rparr>))"

text \<open>
  The update document \<open>{ title, subtitle, content, imageUrl }\<close> applied to one stored
  article: an undefined key is dropped from the update, the defined ones are set, and
  the schema's timestamps set \<open>updatedAt\<close>. Update validators are off by default.
\<close>

definition apply_update ::
  "world \<Rightarrow> string option \<Rightarrow> string option \<Rightarrow> string option \<Rightarrow> string
     \<Rightarrow> blogpost_doc \<Rightarrow> blogpost_doc" where
  "apply_update w t st c img p =
     p\<lparr>title := (case t of None \<Rightarrow> title p | Some x \<Rightarrow> x),
       subtitle := (case st of None \<Rightarrow> subtitle p | Some x \<Rightarrow> Some x),
       content := (case c of None \<Rightarrow> content p | Some x \<Rightarrow> x),
       imageUrl := img,
       updatedAt := clock w\<rparr>"

fun update_first :: "('a \<Rightarrow> bool) \<Rightarrow> ('a \<Rightarrow> 'a) \<Rightarrow> 'a list \<Rightarrow> 'a list" where
  "update_first f g [] = []"
| "update_first f g (d # ds) = (if f d then g d # ds else d # update_first f g ds)"

fun delete_first :: "('a \<Rightarrow> bool) \<Rightarrow> 'a list \<Rightarrow> 'a list" where
  "delete_first f [] = []"
| "delete_first f (d # ds) = (if f d then ds else d # delete_first f ds)"

text \<open>\<open>BlogPost.findByIdAndUpdate(id, update, { new: true })\<close>: the updated document.\<close>

definition BlogPost_findByIdAndUpdate ::
  "world \<Rightarrow> store \<Rightarrow> string \<Rightarrow> string option \<Rightarrow> string option \<Rightarrow> string option \<Rightarrow> string
     \<Rightarrow> store_error + (blogpost_doc option \<times> store)" where
  "BlogPost_findByIdAndUpdate w s i t st c img =
     (case castObjectId i of
        None \<Rightarrow> Inl CastError
      | Some oid \<Rightarrow>
          let s' = s\<lparr>posts := update_first (\<lambda>p. post_id p = oid) (apply_update w t st c img)
                                (posts s)\<rparr>
          in Inr (findOne (\<lambda>p. post_id p = oid) (posts s'), s'))"

definition BlogPost_findByIdAndDelete :: "store \<Rightarrow> string \<Rightarrow> store_error + store" where
  "BlogPost_findByIdAndDelete s i =
     (case castObjectId i of
        None \<Rightarrow> Inl CastError
      | Some oid \<Rightarrow> Inr (s\<lparr>posts := delete_first (\<lambda>p. post_id p = oid) (posts s)\<rparr>))"

subsection \<open>jsonwebtoken\<close>

text \<open>
  \<open>process.env.JWT_SECRET || "fallback_secret"\<close>, the key of every sign and verify.
\<close>

definition jwt_secret :: "process_env \<Rightarrow> string" where
  "jwt_secret e = the (js_or (JWT_SECRET e) (Some ''fallback_secret''))"

text \<open>
  \<open>jwt.sign(claims, key, { expiresIn: "24h" })\<close> at the second \<open>now\<close>, with the default
  algorithm HS256: \<open>iat\<close> is \<open>now\<close>, \<open>exp\<close> is \<open>iat\<close> plus the 86400 seconds of 24
  hours, and there is no \<open>nbf\<close>.
\<close>

definition jwt_sign :: "lib \<Rightarrow> string \<Rightarrow> string \<Rightarrow> string \<Rightarrow> nat \<Rightarrow> string" where
  "jwt_sign l i name k now =
     (let p = \<lparr>claim_id = i, claim_username = name, claim_iat = Some (int now),
               claim_nbf = None, claim_exp = Some (int now + 24 * 60 * 60)\<rparr>
      in jwt_encode l (JWS HS256 p (hmac l HS256 k p)))"

text \<open>
  \<open>jwt.verify(token, key, callback)\<close> with no options, at the second \<open>now\<close>, in the
  order of the library's checks: a token that does not decode, whose algorithm is not
  allowed or whose signature is not the MAC of its payload under the key is a
  JsonWebTokenError; one with an \<open>nbf\<close> later than the clock is a NotBeforeError; one
  whose \<open>exp\<close> the clock has reached is a TokenExpiredError. A claim the token does
  not carry is not checked.
\<close>

definition jwt_verify :: "lib \<Rightarrow> string \<Rightarrow> string \<Rightarrow> nat \<Rightarrow> jwt_error + jwt_payload" where
  "jwt_verify l token k now =
     (case jwt_decode l token of
        None \<Rightarrow> Inl JsonWebTokenError
      | Some (JWS alg p sg) \<Rightarrow>
          if alg = OtherAlg then Inl JsonWebTokenError
          else if sg \<noteq> hmac l alg k p then Inl JsonWebTokenError
          else if (case claim_nbf p of None \<Rightarrow> False | Some n \<Rightarrow> n > int now)
          then Inl NotBeforeError
          else if (case claim_exp p of None \<Rightarrow> False | Some x \<Rightarrow> int now \<ge> x)
          then Inl TokenExpiredError
          else Inr p)"

definition seconds :: "world \<Rightarrow> nat" where
  "seconds w = clock w div 1000"

subsection \<open>The authentication gate\<close>

definition getTokenFromHeader :: "request \<Rightarrow> string option" where
  "getTokenFromHeader req =
     (let header = js_or (headers req ''authorization'') (headers req ''Authorization'')
      in if falsy header then None
         else let parts = split_on CHR '' '' (the header)
              in if length parts \<noteq> 2 then None else Some (parts ! 1))"

text \<open>
  \<open>authenticateToken\<close>: \<open>Inl\<close> is the response the middleware sends itself, \<open>Inr\<close> the
  payload it stores in \<open>req.user\<close> before calling \<open>next()\<close>.
\<close>

definition authenticateToken ::
  "lib \<Rightarrow> process_env \<Rightarrow> world \<Rightarrow> request \<Rightarrow> response + jwt_payload" where
  "authenticateToken l e w req =
     (let token = getTokenFromHeader req
      in if falsy token
         then Inl \<lparr>status = 401, res_body = Message ''Access token required''\<rparr>
         else case jwt_verify l (the token) (jwt_secret e) (seconds w) of
                Inl err \<Rightarrow> Inl \<lparr>status = 403, res_body = Message ''Invalid or expired token''\<rparr>
              | Inr payload \<Rightarrow> Inr payload)"

subsection \<open>multer and the upload to the storage provider\<close>

text \<open>
  \<open>upload.single("image")\<close> on the file part of the request (none: the request carries
  no file in the field). The file filter sees the part's headers first; the size limit
  cuts the stream off once it has more bytes than \<open>fileSize\<close>. Either error goes to
  \<open>next(err)\<close>, and the handler of the route is not called.
\<close>

definition fileSize :: nat where
  "fileSize = 5 * 1024 * 1024"

definition fileFilter :: "upload_file \<Rightarrow> bool" where
  "fileFilter f = startsWith (mimetype f) ''image/''"

datatype multer_error = FilterError string | LIMIT_FILE_SIZE

definition upload_single :: "upload_file option \<Rightarrow> multer_error + upload_file option" where
  "upload_single part =
     (case part of
        None \<Rightarrow> Inr None
      | Some f \<Rightarrow>
          if \<not> fileFilter f then Inl (FilterError ''Only image files are allowed!'')
          else if length (buffer f) > fileSize then Inl LIMIT_FILE_SIZE
          else Inr (Some f))"

text \<open>
  The application installs no error middleware, so an error passed to \<open>next\<close> reaches
  the default handler of Express: status 500 and its error page.
\<close>

definition express_error :: "store \<Rightarrow> outcome" where
  "express_error s = reply 500 ErrorPage s []"

definition uploadToCloudinary :: "world \<Rightarrow> nat list \<Rightarrow> string + string" where
  "uploadToCloudinary w b = upload_stream w b"

text \<open>
  The block both article writes share (lines 227-234 and 270-277): \<open>imageUrl\<close> keeps
  its initial value unless \<open>req.file\<close> is set; then the buffer is uploaded, and a
  rejected upload ends the request. \<open>Inl\<close> is that early return, \<open>Inr\<close> the image
  reference to store; both carry the provider calls made.
\<close>

definition upload_if_file ::
  "world \<Rightarrow> upload_file option \<Rightarrow> string \<Rightarrow> nat list list + (string \<times> nat list list)" where
  "upload_if_file w file initial =
     (case file of
        None \<Rightarrow> Inr (initial, [])
      | Some f \<Rightarrow>
          (case uploadToCloudinary w (buffer f) of
             Inl uploadError \<Rightarrow> Inl [buffer f]
           | Inr url \<Rightarrow> Inr (url, [buffer f])))"

subsection \<open>The auth routes\<close>

text \<open>
  \<open>User.findOne({ $or: [{ email }, { username }] })\<close> and \<open>User.findOne({ email })\<close>: every
  stored user has both fields, so a field the body lacks matches no one.
  \<open>bcrypt.hash\<close> and \<open>bcrypt.compare\<close> throw on an undefined password, which the
  \<open>catch\<close> of the handler turns into 500.
\<close>

definition user_json :: "user_doc \<Rightarrow> user_view" where
  "user_json u = \<lparr>view_id = user_id u, view_username = user_username u,
                  view_email = user_email u\<rparr>"

definition POST_api_auth_signup ::
  "lib \<Rightarrow> process_env \<Rightarrow> world \<Rightarrow> store \<Rightarrow> request \<Rightarrow> outcome" where
  "POST_api_auth_signup l e w s req =
     (let username = req_body req ''username'';
          email = req_body req ''email'';
          password = req_body req ''password'';
          existingUser = findOne (\<lambda>u. email = Some (user_email u)
                                      \<or> username = Some (user_username u)) (users s)
      in if existingUser \<noteq> None then reply 400 (Message ''User already exists'') s []
         else case password of
           None \<Rightarrow> reply 500 (Message ''Server error during signup'') s []
         | Some pw \<Rightarrow>
             (case User_save w s username email (Some (bcrypt_hash l pw (salt w))) of
                Inl err \<Rightarrow> reply 500 (Message ''Server error during signup'') s []
              | Inr (newUser, s') \<Rightarrow>
                  reply 201
                    (AuthBody ''User created successfully''
                       (jwt_sign l (user_id newUser) (user_username newUser)
                          (jwt_secret e) (seconds w))
                       (user_json newUser))
                    s' []))"

definition POST_api_auth_login ::
  "lib \<Rightarrow> process_env \<Rightarrow> world \<Rightarrow> store \<Rightarrow> request \<Rightarrow> outcome" where
  "POST_api_auth_login l e w s req =
     (let email = req_body req ''email'';
          password = req_body req ''password''
      in case findOne (\<lambda>u. email = Some (user_email u)) (users s) of
           None \<Rightarrow> reply 400 (Message ''Invalid credentials'') s []
         | Some user \<Rightarrow>
             (case password of
                None \<Rightarrow> reply 500 (Message ''Server error during login'') s []
              | Some pw \<Rightarrow>
                  if \<not> bcrypt_compare l pw (user_password user)
                  then reply 400 (Message ''Invalid credentials'') s []
                  else reply 200
                         (AuthBody ''Login successful''
                            (jwt_sign l (user_id user) (user_username user)
                               (jwt_secret e) (seconds w))
                            (user_json user))
                         s []))"

subsection \<open>The article routes\<close>


text \<open>
  The handlers of the three authenticated routes take what the middleware before them
  left in the request: \<open>req.user\<close> and \<open>req.file\<close>.
\<close>

definition create_handler ::
  "world \<Rightarrow> store \<Rightarrow> jwt_payload \<Rightarrow> upload_file option \<Rightarrow> request \<Rightarrow> outcome" where
  "create_handler w s user file req =
     (let title = req_body req ''title'';
          subtitle = req_body req ''subtitle'';
          content = req_body req ''content''
      in case upload_if_file w file [] of
           Inl ups \<Rightarrow> reply 500 (Message ''Failed to upload image'') s ups
         | Inr (imageUrl', ups) \<Rightarrow>
             (case BlogPost_save w s title subtitle content imageUrl' (claim_id user) of
                Inl err \<Rightarrow> reply 500 (Message ''Server error creating post'') s ups
              | Inr (newPost, s') \<Rightarrow> reply 201 (populate s' newPost) s' ups))"

definition update_handler ::
  "world \<Rightarrow> store \<Rightarrow> jwt_payload \<Rightarrow> upload_file option \<Rightarrow> request \<Rightarrow> outcome" where
  "update_handler w s user file req =
     (let title = req_body req ''title'';
          subtitle = req_body req ''subtitle'';
          content = req_body req ''content''
      in case BlogPost_findById s (params_id req) of
           Inl err \<Rightarrow> reply 500 (Message ''Server error updating post'') s []
         | Inr None \<Rightarrow> reply 404 (Message ''Post not found'') s []
         | Inr (Some post) \<Rightarrow>
             if author post \<noteq> claim_id user
             then reply 403 (Message ''Not authorized to edit this post'') s []
             else
               (case upload_if_file w file (imageUrl post) of
                  Inl ups \<Rightarrow> reply 500 (Message ''Failed to upload image'') s ups
                | Inr (imageUrl', ups) \<Rightarrow>
                    (case BlogPost_findByIdAndUpdate w s (params_id req)
                            title subtitle content imageUrl' of
                       Inl err \<Rightarrow> reply 500 (Message ''Server error updating post'') s ups
                     | Inr (updatedPost, s') \<Rightarrow>
                         reply 200
                           (case updatedPost of None \<Rightarrow> JsonNull | Some p \<Rightarrow> populate s' p)
                           s' ups)))"

definition delete_handler :: "store \<Rightarrow> jwt_payload \<Rightarrow> request \<Rightarrow> outcome" where
  "delete_handler s user req =
     (case BlogPost_findById s (params_id req) of
        Inl err \<Rightarrow> reply 500 (Message ''Server error deleting post'') s []
      | Inr None \<Rightarrow> reply 404 (Message ''Post not found'') s []
      | Inr (Some post) \<Rightarrow>
          if author post \<noteq> claim_id user
          then reply 403 (Message ''Not authorized to delete this post'') s []
          else
            (case BlogPost_findByIdAndDelete s (params_id req) of
               Inl err \<Rightarrow> reply 500 (Message ''Server error deleting post'') s []
             | Inr s' \<Rightarrow> reply 200 (Message ''Post deleted successfully'') s' []))"

text \<open>
  The routes as registered: \<open>authenticateToken\<close>, then \<open>upload.single("image")\<close> on the
  two writes, then the handler.
\<close>

definition POST_api_posts ::
  "lib \<Rightarrow> process_env \<Rightarrow> world \<Rightarrow> store \<Rightarrow> request \<Rightarrow> outcome" where
  "POST_api_posts l e w s req =
     (case authenticateToken l e w req of
        Inl r \<Rightarrow> \<lparr>resp = r, db = s, uploads = []\<rparr>
      | Inr user \<Rightarrow>
          (case upload_single (file_part req) of
             Inl err \<Rightarrow> express_error s
           | Inr file \<Rightarrow> create_handler w s user file req))"

definition PUT_api_posts_id ::
  "lib \<Rightarrow> process_env \<Rightarrow> world \<Rightarrow> store \<Rightarrow> request \<Rightarrow> outcome" where
  "PUT_api_posts_id l e w s req =
     (case authenticateToken l e w req of
        Inl r \<Rightarrow> \<lparr>resp = r, db = s, uploads = []\<rparr>
      | Inr user \<Rightarrow>
          (case upload_single (file_part req) of
             Inl err \<Rightarrow> express_error s
           | Inr file \<Rightarrow> update_handler w s user file req))"

definition DELETE_api_posts_id ::
  "lib \<Rightarrow> process_env \<Rightarrow> world \<Rightarrow> store \<Rightarrow> request \<Rightarrow> outcome" where
  "DELETE_api_posts_id l e w s req =
     (case authenticateToken l e w req of
        Inl r \<Rightarrow> \<lparr>resp = r, db = s, uploads = []\<rparr>
      | Inr user \<Rightarrow> delete_handler s user req)"


subsection \<open>Sample data\<close>

text \<open>
  Two registered users, one article of the first, a toy instance of the libraries and
  two states of the outside world, for the concrete runs further down.
\<close>

definition alice_id :: objectId where
  "alice_id = ''64b7f0c2a1d3e4f5a6b7c8d9''"

definition bob_id :: objectId where
  "bob_id = ''64b7f0c2a1d3e4f5a6b7c8da''"

definition post_x_id :: objectId where
  "post_x_id = ''74b7f0c2a1d3e4f5a6b7c8d9''"

definition fresh_id :: objectId where
  "fresh_id = ''84b7f0c2a1d3e4f5a6b7c8d9''"

definition alice_claims :: jwt_payload where
  "alice_claims = \<lparr>claim_id = alice_id, claim_username = ''alice'',
                    claim_iat = Some 1000, claim_nbf = None, claim_exp = Some 87400\<rparr>"

definition bob_claims :: jwt_payload where
  "bob_claims = \<lparr>claim_id = bob_id, claim_username = ''bob'',
                  claim_iat = Some 1000, claim_nbf = None, claim_exp = Some 87400\<rparr>"

text \<open>
  Two payloads no route of this server signs, but anyone who knows the secret can:
  one that becomes valid only at second 90000 and expires at second 200000, and one
  that carries no expiry.
\<close>

definition early_claims :: jwt_payload where
  "early_claims = \<lparr>claim_id = alice_id, claim_username = ''alice'',
                    claim_iat = Some 1000, claim_nbf = Some 90000, claim_exp = Some 200000\<rparr>"

definition eternal_claims :: jwt_payload where
  "eternal_claims = \<lparr>claim_id = alice_id, claim_username = ''alice'',
                      claim_iat = Some 1000, claim_nbf = None, claim_exp = None\<rparr>"

definition test_lib :: lib where
  "test_lib =
     \<lparr>hmac = (\<lambda>alg k p. k @ ''/'' @ claim_id p),
      jwt_encode = (\<lambda>j. case j of JWS alg p sg \<Rightarrow>
                      if p = alice_claims then ''tokA'' @ sg
                      else if p = bob_claims then ''tokB'' @ sg
                      else if p = early_claims then ''tokE'' @ sg
                      else if p = eternal_claims then ''tokN'' @ sg else ''tok''),
      jwt_decode = (\<lambda>t. if take 4 t = ''tokA'' then Some (JWS HS256 alice_claims (drop 4 t))
                         else if take 4 t = ''tokB'' then Some (JWS HS256 bob_claims (drop 4 t))
                         else if take 4 t = ''tokE'' then Some (JWS HS256 early_claims (drop 4 t))
                         else if take 4 t = ''tokN''
                         then Some (JWS HS256 eternal_claims (drop 4 t))
                         else None),
      bcrypt_hash = (\<lambda>pw s. s @ pw),
      bcrypt_compare = (\<lambda>pw h. drop (length h - length pw) h = pw)\<rparr>"

definition test_env :: process_env where
  "test_env = \<lparr>JWT_SECRET = None\<rparr>"

definition alice_token :: string where
  "alice_token = ''tokAfallback_secret/64b7f0c2a1d3e4f5a6b7c8d9''"

definition bob_token :: string where
  "bob_token = ''tokBfallback_secret/64b7f0c2a1d3e4f5a6b7c8da''"

definition early_token :: string where
  "early_token = ''tokEfallback_secret/64b7f0c2a1d3e4f5a6b7c8d9''"

definition eternal_token :: string where
  "eternal_token = ''tokNfallback_secret/64b7f0c2a1d3e4f5a6b7c8d9''"

definition alice_user :: user_doc where
  "alice_user = \<lparr>user_id = alice_id, user_username = ''alice'', user_email = ''a@x.com'',
                  user_password = ''napw1'', user_createdAt = 1000000,
                  user_updatedAt = 1000000\<rparr>"

definition bob_user :: user_doc where
  "bob_user = \<lparr>user_id = bob_id, user_username = ''bob'', user_email = ''b@x.com'',
                user_password = ''napw2'', user_createdAt = 1000000,
                user_updatedAt = 1000000\<rparr>"

definition post_x :: blogpost_doc where
  "post_x = \<lparr>post_id = post_x_id, title = ''Hi'', subtitle = None, content = ''First'',
              imageUrl = ''https://img.example/x.png'', author = alice_id,
              createdAt = 1000000, updatedAt = 1000000\<rparr>"

definition test_store :: store where
  "test_store = \<lparr>users = [alice_user, bob_user], posts = [post_x]\<rparr>"

text \<open>In \<open>test_world\<close> the storage provider refuses every upload, in \<open>test_world_ok\<close>
  it stores every one.\<close>

definition test_world :: world where
  "test_world = \<lparr>clock = 2000000, new_ObjectId = fresh_id, salt = ''na'',
                  upload_stream = (\<lambda>b. Inl ''provider unreachable'')\<rparr>"

definition test_world_ok :: world where
  "test_world_ok = \<lparr>clock = 2000000, new_ObjectId = fresh_id, salt = ''na'',
                     upload_stream = (\<lambda>b. Inr ''https://img.example/new.png'')\<rparr>"

text \<open>A moment three centuries after the sample tokens were signed.\<close>

definition late_world :: world where
  "late_world = \<lparr>clock = 10000000000000, new_ObjectId = fresh_id, salt = ''na'',
                  upload_stream = (\<lambda>b. Inl ''provider unreachable'')\<rparr>"

definition png_file :: upload_file where
  "png_file = \<lparr>mimetype = ''image/png'', buffer = [137, 80, 78, 71]\<rparr>"

definition text_file :: upload_file where
  "text_file = \<lparr>mimetype = ''text/plain'', buffer = [104, 105]\<rparr>"

definition bearer :: "string \<Rightarrow> string \<rightharpoonup> string" where
  "bearer t = [''authorization'' \<mapsto> ''Bearer '' @ t]"

definition bare_request :: request where
  "bare_request = \<lparr>headers = Map.empty, params_id = [], req_body = Map.empty,
                    file_part = None\<rparr>"

text \<open>The sample article after its owner has set a new title at the clock of the
  sample worlds, and the article the first sample user creates there.\<close>

definition post_x_new :: blogpost_doc where
  "post_x_new = post_x\<lparr>title := ''New'', updatedAt := 2000000\<rparr>"

definition post_y :: blogpost_doc where
  "post_y = \<lparr>post_id = fresh_id, title = ''Second'', subtitle = None, content = ''Text'',
              imageUrl = [], author = alice_id, createdAt = 2000000, updatedAt = 2000000\<rparr>"

section \<open>Auxiliary facts\<close>

subsection \<open>Splitting a header\<close>

lemma split_on_not_Nil: "split_on c s \<noteq> []"
  by (induction s) auto

lemma length_split_on: "length (split_on c s) = Suc (length (filter (\<lambda>x. x = c) s))"
  by (induction s) (auto simp: split_on_not_Nil)

lemma split_on_no_sep: "c \<notin> set s \<Longrightarrow> split_on c s = [s]"
  by (induction s) auto

lemma split_on_append: "c \<notin> set a \<Longrightarrow> split_on c (a @ c # t) = a # split_on c t"
  by (induction a) auto

lemma split_on_two:
  "length (split_on c s) = 2 \<longleftrightarrow> (\<exists>a t. s = a @ c # t \<and> c \<notin> set a \<and> c \<notin> set t)"
proof
  assume len: "length (split_on c s) = 2"
  then have one: "length (filter (\<lambda>x. x = c) s) = 1"
    by (simp add: length_split_on)
  then have "c \<in> set s"
    by (metis (mono_tags, lifting) filter_False length_0_conv zero_neq_one)
  then obtain a t where s: "s = a @ c # t" and a: "c \<notin> set a"
    by (meson split_list_first)
  from a have "filter (\<lambda>x. x = c) a = []"
    by (auto simp: filter_empty_conv)
  with one s have "filter (\<lambda>x. x = c) t = []"
    by simp
  then have "c \<notin> set t"
    by (auto simp: filter_empty_conv)
  with s a show "\<exists>a t. s = a @ c # t \<and> c \<notin> set a \<and> c \<notin> set t"
    by blast
next
  assume "\<exists>a t. s = a @ c # t \<and> c \<notin> set a \<and> c \<notin> set t"
  then show "length (split_on c s) = 2"
    by (auto simp: split_on_append split_on_no_sep)
qed

lemma getToken_None:
  "falsy (js_or (headers req ''authorization'') (headers req ''Authorization''))
   \<Longrightarrow> getTokenFromHeader req = None"
  by (simp add: getTokenFromHeader_def)

lemma getToken_two:
  assumes "js_or (headers req ''authorization'') (headers req ''Authorization'')
             = Some (a @ CHR '' '' # t)"
    and "CHR '' '' \<notin> set a" and "CHR '' '' \<notin> set t"
  shows "getTokenFromHeader req = Some t"
  using assms
  by (simp add: getTokenFromHeader_def falsy_def split_on_append split_on_no_sep)

lemma getToken_not_two:
  assumes "js_or (headers req ''authorization'') (headers req ''Authorization'') = Some h"
    and "\<not> (\<exists>a t. h = a @ CHR '' '' # t \<and> CHR '' '' \<notin> set a \<and> CHR '' '' \<notin> set t)"
  shows "getTokenFromHeader req = None"
  using assms split_on_two [of "CHR '' ''" h]
  by (simp add: getTokenFromHeader_def falsy_def)

subsection \<open>Signing and verifying\<close>

lemma jwt_secret_cases:
  "jwt_secret e = (case JWT_SECRET e of None \<Rightarrow> ''fallback_secret''
                   | Some k \<Rightarrow> if k = [] then ''fallback_secret'' else k)"
  by (simp add: jwt_secret_def js_or_def split: option.split)

lemma jwt_verify_Inr_iff:
  "jwt_verify l token k now = Inr p \<longleftrightarrow>
     (\<exists>alg. alg \<noteq> OtherAlg
         \<and> jwt_decode l token = Some (JWS alg p (hmac l alg k p))
         \<and> (\<forall>n. claim_nbf p = Some n \<longrightarrow> n \<le> int now)
         \<and> (\<forall>x. claim_exp p = Some x \<longrightarrow> int now < x))"
  by (auto simp: jwt_verify_def split: option.splits jws.splits if_splits)

lemma authenticateToken_Inr_iff:
  "authenticateToken l e w req = Inr p \<longleftrightarrow>
     (\<exists>t. getTokenFromHeader req = Some t \<and> t \<noteq> []
          \<and> jwt_verify l t (jwt_secret e) (seconds w) = Inr p)"
  by (cases "getTokenFromHeader req")
     (auto simp: authenticateToken_def falsy_def Let_def split: sum.splits)

lemma jwt_sign_payload:
  "jwt_sign l i name k now =
     jwt_encode l
       (JWS HS256
          \<lparr>claim_id = i, claim_username = name, claim_iat = Some (int now),
            claim_nbf = None, claim_exp = Some (int now + 86400)\<rparr>
          (hmac l HS256 k
             \<lparr>claim_id = i, claim_username = name, claim_iat = Some (int now),
               claim_nbf = None, claim_exp = Some (int now + 86400)\<rparr>))"
  by (simp add: jwt_sign_def Let_def)

lemma signup_token:
  "res_body (resp (POST_api_auth_signup l e w s req)) = AuthBody m tok u \<Longrightarrow>
     tok = jwt_sign l (view_id u) (view_username u) (jwt_secret e) (seconds w)"
  by (auto simp: POST_api_auth_signup_def reply_def Let_def user_json_def
      split: option.splits sum.splits if_splits)

lemma login_token:
  "res_body (resp (POST_api_auth_login l e w s req)) = AuthBody m tok u \<Longrightarrow>
     tok = jwt_sign l (view_id u) (view_username u) (jwt_secret e) (seconds w)"
  by (auto simp: POST_api_auth_login_def reply_def Let_def user_json_def
      split: option.splits sum.splits if_splits)

lemma issued_then_verified:
  assumes "jwt_decode l (jwt_sign l i name k t0) =
             Some (JWS HS256
                     \<lparr>claim_id = i, claim_username = name, claim_iat = Some (int t0),
                       claim_nbf = None, claim_exp = Some (int t0 + 86400)\<rparr>
                     (hmac l HS256 k
                        \<lparr>claim_id = i, claim_username = name, claim_iat = Some (int t0),
                          claim_nbf = None, claim_exp = Some (int t0 + 86400)\<rparr>))"
  shows "jwt_verify l (jwt_sign l i name k t0) k now =
           (if now < t0 + 86400
            then Inr \<lparr>claim_id = i, claim_username = name, claim_iat = Some (int t0),
                      claim_nbf = None, claim_exp = Some (int t0 + 86400)\<rparr>
            else Inl TokenExpiredError)"
  using assms by (auto simp: jwt_verify_def)

subsection \<open>The sample data, evaluated\<close>

lemma test_secret: "jwt_secret test_env = ''fallback_secret''"
  by (simp add: jwt_secret_cases test_env_def)

lemma seconds_test_world: "seconds test_world = 2000" "seconds test_world_ok = 2000"
  by (simp_all add: seconds_def test_world_def test_world_ok_def)

lemma decode_alice:
  "jwt_decode test_lib alice_token
     = Some (JWS HS256 alice_claims ''fallback_secret/64b7f0c2a1d3e4f5a6b7c8d9'')"
  by (simp add: test_lib_def alice_token_def)

lemma decode_bob:
  "jwt_decode test_lib bob_token
     = Some (JWS HS256 bob_claims ''fallback_secret/64b7f0c2a1d3e4f5a6b7c8da'')"
  by (simp add: test_lib_def bob_token_def)

lemma decode_early:
  "jwt_decode test_lib early_token
     = Some (JWS HS256 early_claims ''fallback_secret/64b7f0c2a1d3e4f5a6b7c8d9'')"
  by (simp add: test_lib_def early_token_def)

lemma decode_eternal:
  "jwt_decode test_lib eternal_token
     = Some (JWS HS256 eternal_claims ''fallback_secret/64b7f0c2a1d3e4f5a6b7c8d9'')"
  by (simp add: test_lib_def eternal_token_def)

lemma mac_alice:
  "hmac test_lib alg ''fallback_secret'' alice_claims
     = ''fallback_secret/64b7f0c2a1d3e4f5a6b7c8d9''"
  by (simp add: test_lib_def alice_claims_def alice_id_def)

lemma mac_bob:
  "hmac test_lib alg ''fallback_secret'' bob_claims
     = ''fallback_secret/64b7f0c2a1d3e4f5a6b7c8da''"
  by (simp add: test_lib_def bob_claims_def bob_id_def)

lemma mac_early:
  "hmac test_lib alg ''fallback_secret'' early_claims
     = ''fallback_secret/64b7f0c2a1d3e4f5a6b7c8d9''"
  by (simp add: test_lib_def early_claims_def alice_id_def)

lemma mac_eternal:
  "hmac test_lib alg ''fallback_secret'' eternal_claims
     = ''fallback_secret/64b7f0c2a1d3e4f5a6b7c8d9''"
  by (simp add: test_lib_def eternal_claims_def alice_id_def)

lemma exp_samples:
  "claim_exp alice_claims = Some 87400" "claim_exp bob_claims = Some 87400"
  "claim_exp early_claims = Some 200000" "claim_exp eternal_claims = None"
  by (simp_all add: alice_claims_def bob_claims_def early_claims_def eternal_claims_def)

lemma nbf_samples:
  "claim_nbf alice_claims = None" "claim_nbf bob_claims = None"
  "claim_nbf early_claims = Some 90000" "claim_nbf eternal_claims = None"
  by (simp_all add: alice_claims_def bob_claims_def early_claims_def eternal_claims_def)

lemma verify_alice:
  "jwt_verify test_lib alice_token ''fallback_secret'' 2000 = Inr alice_claims"
  by (simp add: jwt_verify_def decode_alice mac_alice exp_samples nbf_samples)

lemma verify_bob:
  "jwt_verify test_lib bob_token ''fallback_secret'' 2000 = Inr bob_claims"
  by (simp add: jwt_verify_def decode_bob mac_bob exp_samples nbf_samples)

lemma verify_early:
  "jwt_verify test_lib early_token ''fallback_secret'' 2000 = Inl NotBeforeError"
  by (simp add: jwt_verify_def decode_early mac_early exp_samples nbf_samples)

lemma verify_eternal:
  "jwt_verify test_lib eternal_token ''fallback_secret'' now = Inr eternal_claims"
  by (simp add: jwt_verify_def decode_eternal mac_eternal exp_samples nbf_samples)

lemma no_space_tokens:
  "CHR '' '' \<notin> set alice_token" "CHR '' '' \<notin> set bob_token"
  "CHR '' '' \<notin> set early_token" "CHR '' '' \<notin> set eternal_token"
  by (simp_all add: alice_token_def bob_token_def early_token_def eternal_token_def)

lemma nonempty_tokens:
  "alice_token \<noteq> []" "bob_token \<noteq> []" "early_token \<noteq> []" "eternal_token \<noteq> []"
  by (simp_all add: alice_token_def bob_token_def early_token_def eternal_token_def)

lemma getToken_bearer:
  "headers req = bearer t \<Longrightarrow> CHR '' '' \<notin> set t \<Longrightarrow> getTokenFromHeader req = Some t"
  using getToken_two [of req "''Bearer''" t]
  by (simp add: bearer_def js_or_def)

lemma auth_alice:
  "headers req = bearer alice_token \<Longrightarrow> seconds w = 2000 \<Longrightarrow>
     authenticateToken test_lib test_env w req = Inr alice_claims"
  by (simp add: authenticateToken_Inr_iff getToken_bearer no_space_tokens nonempty_tokens
      test_secret verify_alice)

lemma auth_bob:
  "headers req = bearer bob_token \<Longrightarrow> seconds w = 2000 \<Longrightarrow>
     authenticateToken test_lib test_env w req = Inr bob_claims"
  by (simp add: authenticateToken_Inr_iff getToken_bearer no_space_tokens nonempty_tokens
      test_secret verify_bob)

subsection \<open>Responses, the upload middleware and the handlers\<close>

lemma reply_sel [simp]:
  "status (resp (reply code b s ups)) = code"
  "res_body (resp (reply code b s ups)) = b"
  "db (reply code b s ups) = s"
  "uploads (reply code b s ups) = ups"
  by (simp_all add: reply_def)

lemma upload_single_Inr:
  "upload_single part = Inr file \<longleftrightarrow>
     (file = part \<and> (\<forall>f. part = Some f \<longrightarrow> fileFilter f \<and> length (buffer f) \<le> fileSize))"
  by (auto simp: upload_single_def split: option.splits)

lemma upload_single_Inl:
  "(\<exists>err. upload_single part = Inl err) \<longleftrightarrow>
     (\<exists>f. part = Some f \<and> (\<not> fileFilter f \<or> length (buffer f) > fileSize))"
  by (auto simp: upload_single_def split: option.splits)

lemma authenticateToken_Inl:
  "authenticateToken l e w req = Inl r \<Longrightarrow> status r = 401 \<or> status r = 403"
  by (auto simp: authenticateToken_def Let_def split: if_splits sum.splits)

lemma upload_if_file_None [simp]: "upload_if_file w None initial = Inr (initial, [])"
  by (simp add: upload_if_file_def)

lemma upload_if_file_Some:
  "upload_if_file w (Some f) initial =
     (case uploadToCloudinary w (buffer f) of
        Inl err \<Rightarrow> Inl [buffer f] | Inr url \<Rightarrow> Inr (url, [buffer f]))"
  by (simp add: upload_if_file_def)

lemma create_handler_failed_upload:
  "uploadToCloudinary w (buffer f) = Inl err \<Longrightarrow>
     create_handler w s user (Some f) req
       = reply 500 (Message ''Failed to upload image'') s [buffer f]"
  by (simp add: create_handler_def upload_if_file_Some)

lemma update_handler_failed_upload:
  "uploadToCloudinary w (buffer f) = Inl err \<Longrightarrow>
   BlogPost_findById s (params_id req) = Inr (Some post) \<Longrightarrow>
   author post = claim_id user \<Longrightarrow>
     update_handler w s user (Some f) req
       = reply 500 (Message ''Failed to upload image'') s [buffer f]"
  by (simp add: update_handler_def upload_if_file_Some)

lemma create_handler_uploads:
  "uploads (create_handler w s user file req) = (case file of None \<Rightarrow> [] | Some f \<Rightarrow> [buffer f])"
  by (auto simp: create_handler_def upload_if_file_def Let_def
      split: option.splits sum.splits prod.splits)

lemma update_handler_uploads:
  "uploads (update_handler w s user file req) = [] \<or>
   (\<exists>f post. file = Some f \<and> uploads (update_handler w s user file req) = [buffer f]
      \<and> BlogPost_findById s (params_id req) = Inr (Some post) \<and> author post = claim_id user)"
  by (auto simp: update_handler_def upload_if_file_def Let_def
      split: option.splits sum.splits prod.splits)

lemma post_route_cases:
  "(\<exists>r. authenticateToken l e w req = Inl r \<and> POST_api_posts l e w s req = \<lparr>resp = r, db = s, uploads = []\<rparr>)
   \<or> (\<exists>user err. authenticateToken l e w req = Inr user \<and> upload_single (file_part req) = Inl err
         \<and> POST_api_posts l e w s req = express_error s)
   \<or> (\<exists>user. authenticateToken l e w req = Inr user
         \<and> upload_single (file_part req) = Inr (file_part req)
         \<and> POST_api_posts l e w s req = create_handler w s user (file_part req) req)"
  by (auto simp: POST_api_posts_def upload_single_Inr split: sum.splits)

lemma put_route_cases:
  "(\<exists>r. authenticateToken l e w req = Inl r \<and> PUT_api_posts_id l e w s req = \<lparr>resp = r, db = s, uploads = []\<rparr>)
   \<or> (\<exists>user err. authenticateToken l e w req = Inr user \<and> upload_single (file_part req) = Inl err
         \<and> PUT_api_posts_id l e w s req = express_error s)
   \<or> (\<exists>user. authenticateToken l e w req = Inr user
         \<and> upload_single (file_part req) = Inr (file_part req)
         \<and> PUT_api_posts_id l e w s req = update_handler w s user (file_part req) req)"
  by (auto simp: PUT_api_posts_id_def upload_single_Inr split: sum.splits)

lemma express_error_sel [simp]:
  "status (resp (express_error s)) = 500" "db (express_error s) = s"
  "uploads (express_error s) = []"
  by (simp_all add: express_error_def)

lemma post_route_uploads:
  "b \<in> set (uploads (POST_api_posts l e w s req)) \<Longrightarrow>
     \<exists>user f. authenticateToken l e w req = Inr user \<and> file_part req = Some f \<and> b = buffer f
       \<and> fileFilter f \<and> length (buffer f) \<le> fileSize
       \<and> POST_api_posts l e w s req = create_handler w s user (Some f) req"
proof -
  assume b: "b \<in> set (uploads (POST_api_posts l e w s req))"
  from post_route_cases [of l e w req s] b
  obtain user where auth: "authenticateToken l e w req = Inr user"
    and ok: "upload_single (file_part req) = Inr (file_part req)"
    and eq: "POST_api_posts l e w s req = create_handler w s user (file_part req) req"
    by auto
  from b eq obtain f where "file_part req = Some f" "b = buffer f"
    by (cases "file_part req") (auto simp: create_handler_uploads)
  with auth ok eq show ?thesis
    by (auto simp: upload_single_Inr)
qed

lemma put_route_uploads:
  "b \<in> set (uploads (PUT_api_posts_id l e w s req)) \<Longrightarrow>
     \<exists>user f post. authenticateToken l e w req = Inr user \<and> file_part req = Some f \<and> b = buffer f
       \<and> fileFilter f \<and> length (buffer f) \<le> fileSize
       \<and> BlogPost_findById s (params_id req) = Inr (Some post) \<and> author post = claim_id user
       \<and> PUT_api_posts_id l e w s req = update_handler w s user (Some f) req"
proof -
  assume b: "b \<in> set (uploads (PUT_api_posts_id l e w s req))"
  from put_route_cases [of l e w req s] b
  obtain user where auth: "authenticateToken l e w req = Inr user"
    and ok: "upload_single (file_part req) = Inr (file_part req)"
    and eq: "PUT_api_posts_id l e w s req = update_handler w s user (file_part req) req"
    by auto
  from update_handler_uploads [of w s user "file_part req" req] b eq
  obtain f post where "file_part req = Some f"
    "uploads (update_handler w s user (file_part req) req) = [buffer f]"
    "BlogPost_findById s (params_id req) = Inr (Some post)" "author post = claim_id user"
    by auto
  with auth ok eq b show ?thesis
    by (auto simp: upload_single_Inr)
qed

lemma rejected_file_routes:
  assumes "upload_single (file_part req) = Inl err"
  shows "uploads (POST_api_posts l e w s req) = [] \<and> db (POST_api_posts l e w s req) = s
         \<and> status (resp (POST_api_posts l e w s req)) \<in> {401, 403, 500}
         \<and> uploads (PUT_api_posts_id l e w s req) = [] \<and> db (PUT_api_posts_id l e w s req) = s
         \<and> status (resp (PUT_api_posts_id l e w s req)) \<in> {401, 403, 500}"
  using assms post_route_cases [of l e w req s] put_route_cases [of l e w req s]
  by (auto dest: authenticateToken_Inl)

subsection \<open>The store operations\<close>

lemma map_update_first:
  "(\<And>x. f x \<Longrightarrow> h (g x) = h x) \<Longrightarrow> map h (update_first f g xs) = map h xs"
  by (induction xs) auto

lemma map_update_first_found:
  "find f xs = Some p \<Longrightarrow> h (g p) = h p \<Longrightarrow> map h (update_first f g xs) = map h xs"
  by (induction xs) (auto split: if_splits)

lemma list_all2_update_first:
  "(\<And>x. R x x) \<Longrightarrow> (\<And>x. f x \<Longrightarrow> R x (g x)) \<Longrightarrow> list_all2 R xs (update_first f g xs)"
  by (induction xs) (auto simp: list_all2_refl)

lemma apply_update_frame:
  "(apply_update w t st c img p)\<lparr>title := title p, subtitle := subtitle p,
      content := content p, imageUrl := imageUrl p, updatedAt := updatedAt p\<rparr> = p"
  by (simp add: apply_update_def)

lemma apply_update_fixed:
  "post_id (apply_update w t st c img p) = post_id p"
  "author (apply_update w t st c img p) = author p"
  "createdAt (apply_update w t st c img p) = createdAt p"
  "imageUrl (apply_update w t st c img p) = img"
  "updatedAt (apply_update w t st c img p) = clock w"
  by (simp_all add: apply_update_def)

lemma findById_Some:
  "BlogPost_findById s i = Inr (Some p) \<longleftrightarrow>
     (\<exists>oid. castObjectId i = Some oid \<and> find (\<lambda>d. post_id d = oid) (posts s) = Some p)"
  by (auto simp: BlogPost_findById_def findOne_def split: option.splits)



lemma update_handler_db:
  "db (update_handler w s user file req) = s
   \<or> (\<exists>post img oid. BlogPost_findById s (params_id req) = Inr (Some post)
         \<and> castObjectId (params_id req) = Some oid
         \<and> author post = claim_id user
         \<and> upload_if_file w file (imageUrl post) = Inr (img, uploads (update_handler w s user file req))
         \<and> status (resp (update_handler w s user file req)) = 200
         \<and> db (update_handler w s user file req)
             = s\<lparr>posts := update_first (\<lambda>p. post_id p = oid)
                   (apply_update w (req_body req ''title'') (req_body req ''subtitle'')
                      (req_body req ''content'') img) (posts s)\<rparr>)"
  by (auto simp: update_handler_def Let_def BlogPost_findByIdAndUpdate_def findById_Some
      split: option.splits sum.splits prod.splits)

lemma put_route_db:
  "db (PUT_api_posts_id l e w s req) = s
   \<or> (\<exists>user. authenticateToken l e w req = Inr user
        \<and> PUT_api_posts_id l e w s req = update_handler w s user (file_part req) req)"
  using put_route_cases [of l e w req s] by auto

lemma update_handler_forbidden:
  "BlogPost_findById s (params_id req) = Inr (Some x) \<Longrightarrow> author x \<noteq> claim_id user \<Longrightarrow>
     update_handler w s user file req
       = reply 403 (Message ''Not authorized to edit this post'') s []"
  by (simp add: update_handler_def)

lemma delete_handler_forbidden:
  "BlogPost_findById s (params_id req) = Inr (Some x) \<Longrightarrow> author x \<noteq> claim_id user \<Longrightarrow>
     delete_handler s user req
       = reply 403 (Message ''Not authorized to delete this post'') s []"
  by (simp add: delete_handler_def)

lemma find_update_first:
  "find f xs = Some p \<Longrightarrow> f (g p) \<Longrightarrow> find f (update_first f g xs) = Some (g p)"
  by (induction xs) (auto split: if_splits)

lemma create_handler_created:
  "status (resp (create_handler w s user file req)) = 201 \<Longrightarrow>
     \<exists>p. db (create_handler w s user file req) = s\<lparr>posts := posts s @ [p]\<rparr>
        \<and> castObjectId (claim_id user) = Some (author p)"
  by (auto simp: create_handler_def Let_def BlogPost_save_def
      split: sum.splits prod.splits option.splits if_splits)

lemma post_route_created:
  "status (resp (POST_api_posts l e w s req)) = 201 \<Longrightarrow>
     \<exists>user p. authenticateToken l e w req = Inr user
        \<and> db (POST_api_posts l e w s req) = s\<lparr>posts := posts s @ [p]\<rparr>
        \<and> castObjectId (claim_id user) = Some (author p)"
  using post_route_cases [of l e w req s] create_handler_created [of w s _ "file_part req" req]
  by (auto dest: authenticateToken_Inl)

lemma put_route_frame:
  "list_all2 (\<lambda>p p'. p'\<lparr>title := title p, subtitle := subtitle p, content := content p,
                          imageUrl := imageUrl p, updatedAt := updatedAt p\<rparr> = p)
     (posts s) (posts (db (PUT_api_posts_id l e w s req)))
   \<and> users (db (PUT_api_posts_id l e w s req)) = users s"
proof -
  let ?R = "\<lambda>p p'. p'\<lparr>title := title p, subtitle := subtitle p, content := content p,
                          imageUrl := imageUrl p, updatedAt := updatedAt p\<rparr> = p"
  have refl: "list_all2 ?R (posts s) (posts s)"
    by (simp add: list_all2_refl)
  from put_route_db [of l e w s req] show ?thesis
  proof
    assume "db (PUT_api_posts_id l e w s req) = s"
    with refl show ?thesis by simp
  next
    assume "\<exists>user. authenticateToken l e w req = Inr user
        \<and> PUT_api_posts_id l e w s req = update_handler w s user (file_part req) req"
    then obtain user where eq:
      "PUT_api_posts_id l e w s req = update_handler w s user (file_part req) req"
      by blast
    from update_handler_db [of w s user "file_part req" req] show ?thesis
    proof
      assume "db (update_handler w s user (file_part req) req) = s"
      with refl eq show ?thesis by simp
    next
      assume "\<exists>post img oid. BlogPost_findById s (params_id req) = Inr (Some post)
         \<and> castObjectId (params_id req) = Some oid
         \<and> author post = claim_id user
         \<and> upload_if_file w (file_part req) (imageUrl post)
             = Inr (img, uploads (update_handler w s user (file_part req) req))
         \<and> status (resp (update_handler w s user (file_part req) req)) = 200
         \<and> db (update_handler w s user (file_part req) req)
             = s\<lparr>posts := update_first (\<lambda>p. post_id p = oid)
                   (apply_update w (req_body req ''title'') (req_body req ''subtitle'')
                      (req_body req ''content'') img) (posts s)\<rparr>"
      then obtain img oid where
        "db (update_handler w s user (file_part req) req)
             = s\<lparr>posts := update_first (\<lambda>p. post_id p = oid)
                   (apply_update w (req_body req ''title'') (req_body req ''subtitle'')
                      (req_body req ''content'') img) (posts s)\<rparr>"
        by blast
      with eq show ?thesis
        by (simp add: list_all2_update_first apply_update_frame)
    qed
  qed
qed

lemma put_route_no_file:
  assumes "file_part req = None"
  shows "map (\<lambda>p. (post_id p, imageUrl p)) (posts (db (PUT_api_posts_id l e w s req)))
           = map (\<lambda>p. (post_id p, imageUrl p)) (posts s)
         \<and> (BlogPost_findById s (params_id req) = Inr (Some x) \<longrightarrow>
              (\<exists>x'. BlogPost_findById (db (PUT_api_posts_id l e w s req)) (params_id req)
                       = Inr (Some x')
                   \<and> imageUrl x' = imageUrl x))"
proof -
  from put_route_db [of l e w s req] show ?thesis
  proof
    assume "db (PUT_api_posts_id l e w s req) = s"
    then show ?thesis by simp
  next
    assume "\<exists>user. authenticateToken l e w req = Inr user
        \<and> PUT_api_posts_id l e w s req = update_handler w s user (file_part req) req"
    then obtain user where eq:
      "PUT_api_posts_id l e w s req = update_handler w s user None req"
      using assms by auto
    from update_handler_db [of w s user None req] show ?thesis
    proof
      assume "db (update_handler w s user None req) = s"
      with eq show ?thesis by simp
    next
      assume "\<exists>post img oid. BlogPost_findById s (params_id req) = Inr (Some post)
         \<and> castObjectId (params_id req) = Some oid
         \<and> author post = claim_id user
         \<and> upload_if_file w None (imageUrl post)
             = Inr (img, uploads (update_handler w s user None req))
         \<and> status (resp (update_handler w s user None req)) = 200
         \<and> db (update_handler w s user None req)
             = s\<lparr>posts := update_first (\<lambda>p. post_id p = oid)
                   (apply_update w (req_body req ''title'') (req_body req ''subtitle'')
                      (req_body req ''content'') img) (posts s)\<rparr>"
      then obtain post oid where found: "BlogPost_findById s (params_id req) = Inr (Some post)"
        and oid: "castObjectId (params_id req) = Some oid"
        and db': "db (update_handler w s user None req)
             = s\<lparr>posts := update_first (\<lambda>p. post_id p = oid)
                   (apply_update w (req_body req ''title'') (req_body req ''subtitle'')
                      (req_body req ''content'') (imageUrl post)) (posts s)\<rparr>"
        by auto
      let ?g = "apply_update w (req_body req ''title'') (req_body req ''subtitle'')
                  (req_body req ''content'') (imageUrl post)"
      from found oid have f: "find (\<lambda>d. post_id d = oid) (posts s) = Some post"
        by (simp add: findById_Some)
      then have id: "post_id post = oid"
        by (auto dest: find_Some_iff [THEN iffD1])
      have 1: "map (\<lambda>p. (post_id p, imageUrl p)) (update_first (\<lambda>p. post_id p = oid) ?g (posts s))
               = map (\<lambda>p. (post_id p, imageUrl p)) (posts s)"
        using f by (rule map_update_first_found) (simp add: apply_update_fixed)
      have 2: "find (\<lambda>d. post_id d = oid) (update_first (\<lambda>p. post_id p = oid) ?g (posts s))
               = Some (?g post)"
        using f by (rule find_update_first) (simp add: apply_update_fixed id)
      have A: "map (\<lambda>p. (post_id p, imageUrl p)) (posts (db (PUT_api_posts_id l e w s req)))
                 = map (\<lambda>p. (post_id p, imageUrl p)) (posts s)"
        by (simp add: eq db' 1)
      have "BlogPost_findById (db (PUT_api_posts_id l e w s req)) (params_id req)
              = Inr (Some (?g post))"
        by (simp add: eq db' findById_Some oid 2)
      moreover have "imageUrl (?g post) = imageUrl post"
        by (simp add: apply_update_fixed)
      ultimately have B: "BlogPost_findById s (params_id req) = Inr (Some x) \<longrightarrow>
              (\<exists>x'. BlogPost_findById (db (PUT_api_posts_id l e w s req)) (params_id req)
                       = Inr (Some x')
                   \<and> imageUrl x' = imageUrl x)"
        using found by auto
      from A B show ?thesis ..
    qed
  qed
qed

lemma put_route_owner:
  "map (\<lambda>p. (post_id p, author p, createdAt p)) (posts (db (PUT_api_posts_id l e w s req)))
     = map (\<lambda>p. (post_id p, author p, createdAt p)) (posts s)"
proof -
  from put_route_db [of l e w s req] show ?thesis
  proof
    assume "db (PUT_api_posts_id l e w s req) = s"
    then show ?thesis by simp
  next
    assume "\<exists>user. authenticateToken l e w req = Inr user
        \<and> PUT_api_posts_id l e w s req = update_handler w s user (file_part req) req"
    then obtain user where eq:
      "PUT_api_posts_id l e w s req = update_handler w s user (file_part req) req"
      by blast
    from update_handler_db [of w s user "file_part req" req] eq show ?thesis
      by (auto simp: map_update_first apply_update_fixed)
  qed
qed

lemma find_None_iff': "find f xs = None \<longleftrightarrow> (\<forall>x \<in> set xs. \<not> f x)"
  by (induction xs) auto

lemma signup_duplicate:
  assumes "\<exists>u \<in> set (users s). req_body req ''email'' = Some (user_email u)
                               \<or> req_body req ''username'' = Some (user_username u)"
  shows "POST_api_auth_signup l e w s req = reply 400 (Message ''User already exists'') s []"
proof -
  from assms have "findOne (\<lambda>u. req_body req ''email'' = Some (user_email u)
                        \<or> req_body req ''username'' = Some (user_username u)) (users s) \<noteq> None"
    unfolding findOne_def find_None_iff' by blast
  then show ?thesis
    by (simp add: POST_api_auth_signup_def Let_def)
qed

lemma save_invalid:
  "\<not> required t \<or> \<not> required c \<Longrightarrow> BlogPost_save w s t st c img a = Inl ValidationError"
  by (auto simp: BlogPost_save_def)

lemma create_handler_invalid:
  assumes "\<not> required (req_body req ''title'') \<or> \<not> required (req_body req ''content'')"
  shows "status (resp (create_handler w s user file req)) = 500
         \<and> db (create_handler w s user file req) = s"
  using save_invalid [OF assms]
  by (auto simp: create_handler_def Let_def split: sum.splits prod.splits)









lemma find_append_last:
  "(\<forall>x \<in> set xs. \<not> f x) \<Longrightarrow> f u \<Longrightarrow> find f (xs @ [u]) = Some u"
  by (induction xs) auto

lemma User_save_Inr:
  "User_save w s username email password = Inr (u, s') \<Longrightarrow>
     (\<exists>name mail hash. username = Some name \<and> email = Some mail \<and> password = Some hash
        \<and> u = \<lparr>user_id = new_ObjectId w, user_username = name, user_email = mail,
                user_password = hash, user_createdAt = clock w, user_updatedAt = clock w\<rparr>
        \<and> s' = s\<lparr>users := users s @ [u]\<rparr>)"
  by (auto simp: User_save_def Let_def required_def split: if_splits option.splits)

lemma signup_created:
  assumes "status (resp (POST_api_auth_signup l e w s req)) = 201"
  shows "\<exists>name mail pw.
           req_body req ''username'' = Some name \<and> req_body req ''email'' = Some mail
         \<and> req_body req ''password'' = Some pw
         \<and> (\<forall>u \<in> set (users s). user_email u \<noteq> mail \<and> user_username u \<noteq> name)
         \<and> POST_api_auth_signup l e w s req
             = reply 201
                 (AuthBody ''User created successfully''
                    (jwt_sign l (new_ObjectId w) name (jwt_secret e) (seconds w))
                    \<lparr>view_id = new_ObjectId w, view_username = name, view_email = mail\<rparr>)
                 (s\<lparr>users := users s @
                      [\<lparr>user_id = new_ObjectId w, user_username = name, user_email = mail,
                        user_password = bcrypt_hash l pw (salt w),
                        user_createdAt = clock w, user_updatedAt = clock w\<rparr>]\<rparr>) []"
proof -
  let ?dup = "\<lambda>u. req_body req ''email'' = Some (user_email u)
                 \<or> req_body req ''username'' = Some (user_username u)"
  from assms have none: "findOne ?dup (users s) = None"
    by (auto simp: POST_api_auth_signup_def Let_def split: if_splits)
  with assms obtain pw where pw: "req_body req ''password'' = Some pw"
    by (cases "req_body req ''password''") (auto simp: POST_api_auth_signup_def Let_def)
  with assms none obtain u s' where
    saved: "User_save w s (req_body req ''username'') (req_body req ''email'')
              (Some (bcrypt_hash l pw (salt w))) = Inr (u, s')"
    by (auto simp: POST_api_auth_signup_def Let_def split: sum.splits)
  from User_save_Inr [OF saved] obtain name mail where
    f: "req_body req ''username'' = Some name" "req_body req ''email'' = Some mail"
    and u: "u = \<lparr>user_id = new_ObjectId w, user_username = name, user_email = mail,
                user_password = bcrypt_hash l pw (salt w),
                user_createdAt = clock w, user_updatedAt = clock w\<rparr>"
    and s': "s' = s\<lparr>users := users s @ [u]\<rparr>"
    by auto
  from none f have fresh: "\<forall>u \<in> set (users s). user_email u \<noteq> mail \<and> user_username u \<noteq> name"
    unfolding findOne_def find_None_iff' by auto
  have "POST_api_auth_signup l e w s req
             = reply 201
                 (AuthBody ''User created successfully''
                    (jwt_sign l (new_ObjectId w) name (jwt_secret e) (seconds w))
                    \<lparr>view_id = new_ObjectId w, view_username = name, view_email = mail\<rparr>)
                 (s\<lparr>users := users s @ [u]\<rparr>) []"
    using none pw saved
    by (simp add: POST_api_auth_signup_def Let_def s' u user_json_def)
  with f pw fresh u show ?thesis
    by blast
qed

subsection \<open>More of the sample data, evaluated\<close>

lemma cast_samples:
  "castObjectId alice_id = Some alice_id" "castObjectId bob_id = Some bob_id"
  "castObjectId post_x_id = Some post_x_id" "castObjectId fresh_id = Some fresh_id"
  by (simp_all add: castObjectId_def is_hex_def lower_hex_def alice_id_def bob_id_def
      post_x_id_def fresh_id_def)

lemma find_post_x: "BlogPost_findById test_store post_x_id = Inr (Some post_x)"
  by (simp add: BlogPost_findById_def cast_samples findOne_def test_store_def post_x_def)

lemma owner_samples:
  "author post_x = claim_id alice_claims" "author post_x \<noteq> claim_id bob_claims"
  by (simp_all add: post_x_def alice_claims_def bob_claims_def alice_id_def bob_id_def)

lemma upload_single_samples:
  "upload_single (Some png_file) = Inr (Some png_file)"
  "upload_single (Some text_file) = Inl (FilterError ''Only image files are allowed!'')"
  "upload_single (Some \<lparr>mimetype = ''image/png'', buffer = replicate 5242881 0\<rparr>)
     = Inl LIMIT_FILE_SIZE"
  by (simp_all add: upload_single_def fileFilter_def startsWith_def fileSize_def
      png_file_def text_file_def)

lemma upload_refused: "uploadToCloudinary test_world b = Inl ''provider unreachable''"
  by (simp add: uploadToCloudinary_def test_world_def)

lemma upload_stored: "uploadToCloudinary test_world_ok b = Inr ''https://img.example/new.png''"
  by (simp add: uploadToCloudinary_def test_world_ok_def)

lemma update_post_x:
  "BlogPost_findByIdAndUpdate test_world_ok test_store post_x_id (Some ''New'') None None
      (imageUrl post_x)
     = Inr (Some post_x_new, test_store\<lparr>posts := [post_x_new]\<rparr>)"
  by (simp add: BlogPost_findByIdAndUpdate_def cast_samples test_store_def findOne_def
      apply_update_def post_x_new_def post_x_def test_world_ok_def)

lemma populate_post_x_new:
  "populate (test_store\<lparr>posts := [post_x_new]\<rparr>) post_x_new
     = PostBody post_x_new (Some (alice_id, ''alice''))"
  by (simp add: populate_def post_x_new_def post_x_def test_store_def findOne_def
      alice_user_def)

lemma put_alice:
  "PUT_api_posts_id test_lib test_env test_world_ok test_store
     (bare_request\<lparr>headers := bearer alice_token, params_id := post_x_id,
                    req_body := [''title'' \<mapsto> ''New'']\<rparr>)
   = reply 200 (PostBody post_x_new (Some (alice_id, ''alice'')))
       (test_store\<lparr>posts := [post_x_new]\<rparr>) []"
proof -
  let ?r = "bare_request\<lparr>headers := bearer alice_token, params_id := post_x_id,
                          req_body := [''title'' \<mapsto> ''New'']\<rparr>"
  have auth: "authenticateToken test_lib test_env test_world_ok ?r = Inr alice_claims"
    by (simp add: auth_alice seconds_test_world)
  have nofile: "file_part ?r = None"
    by (simp add: bare_request_def)
  have body: "req_body ?r ''title'' = Some ''New''" "req_body ?r ''subtitle'' = None"
    "req_body ?r ''content'' = None"
    by simp_all
  have "update_handler test_world_ok test_store alice_claims None ?r
        = reply 200 (PostBody post_x_new (Some (alice_id, ''alice'')))
            (test_store\<lparr>posts := [post_x_new]\<rparr>) []"
    unfolding update_handler_def Let_def body
    by (simp add: find_post_x owner_samples update_post_x populate_post_x_new)
  then show ?thesis
    by (simp add: PUT_api_posts_id_def auth nofile upload_single_def)
qed

lemma save_post_y:
  "BlogPost_save test_world_ok test_store (Some ''Second'') None (Some ''Text'') []
      (claim_id alice_claims)
     = Inr (post_y, test_store\<lparr>posts := [post_x, post_y]\<rparr>)"
  by (simp add: BlogPost_save_def Let_def required_def alice_claims_def cast_samples
      findOne_def test_store_def post_x_def post_y_def test_world_ok_def post_x_id_def
      fresh_id_def)

lemma populate_post_y:
  "populate (test_store\<lparr>posts := [post_x, post_y]\<rparr>) post_y
     = PostBody post_y (Some (alice_id, ''alice''))"
  by (simp add: populate_def post_y_def test_store_def findOne_def alice_user_def)

lemma post_alice:
  "POST_api_posts test_lib test_env test_world_ok test_store
     (bare_request\<lparr>headers := bearer alice_token,
                    req_body := [''title'' \<mapsto> ''Second'', ''content'' \<mapsto> ''Text'']\<rparr>)
   = reply 201 (PostBody post_y (Some (alice_id, ''alice'')))
       (test_store\<lparr>posts := [post_x, post_y]\<rparr>) []"
proof -
  let ?r = "bare_request\<lparr>headers := bearer alice_token,
                    req_body := [''title'' \<mapsto> ''Second'', ''content'' \<mapsto> ''Text'']\<rparr>"
  have auth: "authenticateToken test_lib test_env test_world_ok ?r = Inr alice_claims"
    by (simp add: auth_alice seconds_test_world)
  have nofile: "file_part ?r = None"
    by (simp add: bare_request_def)
  have body: "req_body ?r ''title'' = Some ''Second''" "req_body ?r ''subtitle'' = None"
    "req_body ?r ''content'' = Some ''Text''"
    by simp_all
  have "create_handler test_world_ok test_store alice_claims None ?r
        = reply 201 (PostBody post_y (Some (alice_id, ''alice'')))
            (test_store\<lparr>posts := [post_x, post_y]\<rparr>) []"
    unfolding create_handler_def Let_def body
    by (simp add: save_post_y populate_post_y)
  then show ?thesis
    by (simp add: POST_api_posts_def auth nofile upload_single_def)
qed

lemma signup_carol:
  "status (resp (POST_api_auth_signup test_lib test_env test_world test_store
     (bare_request\<lparr>req_body := [''username'' \<mapsto> ''carol'', ''email'' \<mapsto> ''c@x.com'',
                                  ''password'' \<mapsto> ''pw3'']\<rparr>))) = 201"
proof -
  let ?r = "bare_request\<lparr>req_body := [''username'' \<mapsto> ''carol'', ''email'' \<mapsto> ''c@x.com'',
                                       ''password'' \<mapsto> ''pw3'']\<rparr>"
  have body: "req_body ?r ''username'' = Some ''carol''" "req_body ?r ''email'' = Some ''c@x.com''"
    "req_body ?r ''password'' = Some ''pw3''"
    by simp_all
  have none: "findOne (\<lambda>u. ''c@x.com'' = user_email u \<or> ''carol'' = user_username u)
                (users test_store) = None"
    by (simp add: findOne_def test_store_def alice_user_def bob_user_def)
  have hash: "bcrypt_hash test_lib ''pw3'' (salt test_world) = ''napw3''"
    by (simp add: test_lib_def test_world_def)
  have "\<exists>u s'. User_save test_world test_store (Some ''carol'') (Some ''c@x.com'')
                  (Some ''napw3'') = Inr (u, s')"
    by (simp add: User_save_def Let_def required_def findOne_def test_store_def
        alice_user_def bob_user_def test_world_def fresh_id_def alice_id_def bob_id_def)
  then show ?thesis
    unfolding POST_api_auth_signup_def Let_def body
    by (auto simp: none hash)
qed

section \<open>The authentication gate\<close>

text \<open>
  Claim C4, as the code has it. The gate answers 401 when the Authorization header is
  absent or empty, when cutting it at its single spaces does not give exactly two
  parts, and when the second part is empty; it answers 403 when the second part fails
  verification; otherwise it hands the verified claims to the handler. The first part
  is never looked at: any word stands where the claim expects \<open>Bearer\<close>.
\<close>

theorem gate_decides:
  "(let header = js_or (headers req ''authorization'') (headers req ''Authorization'');
        unauthorized = Inl \<lparr>status = 401, res_body = Message ''Access token required''\<rparr>;
        forbidden = Inl \<lparr>status = 403, res_body = Message ''Invalid or expired token''\<rparr>
    in (falsy header \<longrightarrow> authenticateToken l e w req = unauthorized)
     \<and> (\<forall>h. header = Some h
            \<and> \<not> (\<exists>a t. h = a @ CHR '' '' # t \<and> CHR '' '' \<notin> set a \<and> CHR '' '' \<notin> set t)
          \<longrightarrow> authenticateToken l e w req = unauthorized)
     \<and> (\<forall>a t. header = Some (a @ CHR '' '' # t) \<and> CHR '' '' \<notin> set a \<and> CHR '' '' \<notin> set t
          \<longrightarrow> authenticateToken l e w req =
                (if t = [] then unauthorized
                 else case jwt_verify l t (jwt_secret e) (seconds w) of
                        Inl err \<Rightarrow> forbidden
                      | Inr claims \<Rightarrow> Inr claims)))"
  unfolding Let_def
proof (intro conjI allI impI)
  assume "falsy (js_or (headers req ''authorization'') (headers req ''Authorization''))"
  then show "authenticateToken l e w req
             = Inl \<lparr>status = 401, res_body = Message ''Access token required''\<rparr>"
    by (simp add: authenticateToken_def getToken_None falsy_def)
next
  fix h
  assume "js_or (headers req ''authorization'') (headers req ''Authorization'') = Some h
          \<and> \<not> (\<exists>a t. h = a @ CHR '' '' # t \<and> CHR '' '' \<notin> set a \<and> CHR '' '' \<notin> set t)"
  then have "getTokenFromHeader req = None"
    using getToken_not_two by blast
  then show "authenticateToken l e w req
             = Inl \<lparr>status = 401, res_body = Message ''Access token required''\<rparr>"
    by (simp add: authenticateToken_def falsy_def)
next
  fix a t
  assume "js_or (headers req ''authorization'') (headers req ''Authorization'')
            = Some (a @ CHR '' '' # t) \<and> CHR '' '' \<notin> set a \<and> CHR '' '' \<notin> set t"
  then have "getTokenFromHeader req = Some t"
    using getToken_two by blast
  then show "authenticateToken l e w req =
             (if t = [] then Inl \<lparr>status = 401, res_body = Message ''Access token required''\<rparr>
              else case jwt_verify l t (jwt_secret e) (seconds w) of
                     Inl err \<Rightarrow> Inl \<lparr>status = 403, res_body = Message ''Invalid or expired token''\<rparr>
                   | Inr claims \<Rightarrow> Inr claims)"
    by (simp add: authenticateToken_def falsy_def)
qed

text \<open>
  The theorem at three requests: \<open>Bearer\<close> and a valid token (accepted), no header
  (401), a header of three parts (401).
\<close>

theorem gate_decides_witness:
  "authenticateToken test_lib test_env test_world (bare_request\<lparr>headers := bearer alice_token\<rparr>)
     = Inr alice_claims
   \<and> authenticateToken test_lib test_env test_world bare_request
     = Inl \<lparr>status = 401, res_body = Message ''Access token required''\<rparr>
   \<and> authenticateToken test_lib test_env test_world
       (bare_request\<lparr>headers := [''authorization'' \<mapsto> ''Bearer a b'']\<rparr>)
     = Inl \<lparr>status = 401, res_body = Message ''Access token required''\<rparr>"
proof (intro conjI)
  let ?r = "bare_request\<lparr>headers := bearer alice_token\<rparr>"
  have h: "js_or (headers ?r ''authorization'') (headers ?r ''Authorization'')
             = Some (''Bearer'' @ CHR '' '' # alice_token)"
    by (simp add: bearer_def js_or_def)
  have "CHR '' '' \<notin> set ''Bearer''"
    by simp
  with h no_space_tokens(1)
    gate_decides [where req = "?r" and l = test_lib and e = test_env and w = test_world]
  have "authenticateToken test_lib test_env test_world ?r =
          (if alice_token = []
           then Inl \<lparr>status = 401, res_body = Message ''Access token required''\<rparr>
           else case jwt_verify test_lib alice_token (jwt_secret test_env) (seconds test_world) of
                  Inl err \<Rightarrow> Inl \<lparr>status = 403, res_body = Message ''Invalid or expired token''\<rparr>
                | Inr claims \<Rightarrow> Inr claims)"
    unfolding Let_def by blast
  then show "authenticateToken test_lib test_env test_world ?r = Inr alice_claims"
    by (simp add: nonempty_tokens test_secret seconds_test_world verify_alice)
next
  have "falsy (js_or (headers bare_request ''authorization'')
                 (headers bare_request ''Authorization''))"
    by (simp add: bare_request_def js_or_def falsy_def)
  with gate_decides [where req = bare_request and l = test_lib and e = test_env
      and w = test_world]
  show "authenticateToken test_lib test_env test_world bare_request
          = Inl \<lparr>status = 401, res_body = Message ''Access token required''\<rparr>"
    unfolding Let_def by blast
next
  let ?r = "bare_request\<lparr>headers := [''authorization'' \<mapsto> ''Bearer a b'']\<rparr>"
  have h: "js_or (headers ?r ''authorization'') (headers ?r ''Authorization'')
             = Some ''Bearer a b''"
    by (simp add: js_or_def)
  have "length (split_on CHR '' '' ''Bearer a b'') \<noteq> 2"
    by simp
  then have "\<not> (\<exists>a t. ''Bearer a b'' = a @ CHR '' '' # t \<and> CHR '' '' \<notin> set a
                      \<and> CHR '' '' \<notin> set t)"
    using split_on_two [of "CHR '' ''" "''Bearer a b''"] by blast
  with h gate_decides [where req = "?r" and l = test_lib and e = test_env and w = test_world]
  show "authenticateToken test_lib test_env test_world ?r
          = Inl \<lparr>status = 401, res_body = Message ''Access token required''\<rparr>"
    unfolding Let_def by blast
qed

text \<open>
  The claim as the specification words it fails: the header \<open>Basic <token>\<close> is not of
  the form \<open>Bearer <token>\<close>, and the gate accepts it.
\<close>

theorem gate_accepts_other_scheme:
  "\<not> startsWith (''Basic '' @ alice_token) ''Bearer ''
   \<and> authenticateToken test_lib test_env test_world
       (bare_request\<lparr>headers := [''authorization'' \<mapsto> ''Basic '' @ alice_token]\<rparr>)
     = Inr alice_claims"
proof
  show "\<not> startsWith (''Basic '' @ alice_token) ''Bearer ''"
    by (simp add: startsWith_def)
  let ?r = "bare_request\<lparr>headers := [''authorization'' \<mapsto> ''Basic '' @ alice_token]\<rparr>"
  have "js_or (headers ?r ''authorization'') (headers ?r ''Authorization'')
          = Some (''Basic'' @ CHR '' '' # alice_token)"
    by (simp add: js_or_def)
  moreover have "CHR '' '' \<notin> set ''Basic''"
    by simp
  ultimately have "getTokenFromHeader ?r = Some alice_token"
    using no_space_tokens(1) by (rule getToken_two)
  then show "authenticateToken test_lib test_env test_world ?r = Inr alice_claims"
    by (simp add: authenticateToken_Inr_iff nonempty_tokens test_secret seconds_test_world
        verify_alice)
qed

section \<open>Token verification\<close>

text \<open>
  Claim C3, as the code has it. The gate accepts a request with the claims \<open>p\<close>
  exactly when the token it reads from the header decodes to \<open>p\<close> under one of the
  three HMAC algorithms with a signature that is the MAC of \<open>p\<close> under the server's
  secret, the wall clock of the request (\<open>Date.now()\<close> in whole seconds) has reached
  the not-before time of \<open>p\<close> if it carries one, and is before the expiry of \<open>p\<close> if
  it carries one: a token without expiry never expires. The secret is \<open>JWT_SECRET\<close> of
  the environment or, when that is absent or empty, the constant \<open>fallback_secret\<close>.
  Signup and login sign with the same secret at the second of the request, and a
  token signed at the second \<open>t0\<close> carries the expiry \<open>t0\<close> plus 24 hours and no
  not-before time: where the library decodes what it encoded, the token verifies at
  every second before that and is expired from then on.
\<close>

theorem token_accepted_iff:
  "(authenticateToken l e w req = Inr p \<longleftrightarrow>
      (\<exists>t alg. getTokenFromHeader req = Some t \<and> t \<noteq> []
           \<and> alg \<in> {HS256, HS384, HS512}
           \<and> jwt_decode l t = Some (JWS alg p (hmac l alg (jwt_secret e) p))
           \<and> (\<forall>n. claim_nbf p = Some n \<longrightarrow> n \<le> int (clock w div 1000))
           \<and> (\<forall>x. claim_exp p = Some x \<longrightarrow> int (clock w div 1000) < x)))
   \<and> jwt_secret e = (case JWT_SECRET e of None \<Rightarrow> ''fallback_secret''
                      | Some k \<Rightarrow> if k = [] then ''fallback_secret'' else k)
   \<and> (res_body (resp (POST_api_auth_signup l e w s req)) = AuthBody m tok u \<longrightarrow>
        tok = jwt_sign l (view_id u) (view_username u) (jwt_secret e) (clock w div 1000))
   \<and> (res_body (resp (POST_api_auth_login l e w s req)) = AuthBody m tok u \<longrightarrow>
        tok = jwt_sign l (view_id u) (view_username u) (jwt_secret e) (clock w div 1000))
   \<and> (let issued = \<lparr>claim_id = i, claim_username = name, claim_iat = Some (int t0),
                      claim_nbf = None, claim_exp = Some (int t0 + 24 * 60 * 60)\<rparr>;
           token = jwt_sign l i name (jwt_secret e) t0
       in token = jwt_encode l (JWS HS256 issued (hmac l HS256 (jwt_secret e) issued))
          \<and> (jwt_decode l token = Some (JWS HS256 issued (hmac l HS256 (jwt_secret e) issued))
             \<longrightarrow> jwt_verify l token (jwt_secret e) now =
                   (if now < t0 + 24 * 60 * 60 then Inr issued else Inl TokenExpiredError)))"
proof (intro conjI)
  have algs: "alg \<in> {HS256, HS384, HS512} \<longleftrightarrow> alg \<noteq> OtherAlg" for alg
    by (cases alg) simp_all
  show "authenticateToken l e w req = Inr p \<longleftrightarrow>
      (\<exists>t alg. getTokenFromHeader req = Some t \<and> t \<noteq> []
           \<and> alg \<in> {HS256, HS384, HS512}
           \<and> jwt_decode l t = Some (JWS alg p (hmac l alg (jwt_secret e) p))
           \<and> (\<forall>n. claim_nbf p = Some n \<longrightarrow> n \<le> int (clock w div 1000))
           \<and> (\<forall>x. claim_exp p = Some x \<longrightarrow> int (clock w div 1000) < x))"
    unfolding authenticateToken_Inr_iff jwt_verify_Inr_iff seconds_def algs
    by blast
  show "jwt_secret e = (case JWT_SECRET e of None \<Rightarrow> ''fallback_secret''
                      | Some k \<Rightarrow> if k = [] then ''fallback_secret'' else k)"
    by (rule jwt_secret_cases)
  show "res_body (resp (POST_api_auth_signup l e w s req)) = AuthBody m tok u \<longrightarrow>
        tok = jwt_sign l (view_id u) (view_username u) (jwt_secret e) (clock w div 1000)"
    using signup_token [of l e w s req m tok u] by (simp add: seconds_def)
  show "res_body (resp (POST_api_auth_login l e w s req)) = AuthBody m tok u \<longrightarrow>
        tok = jwt_sign l (view_id u) (view_username u) (jwt_secret e) (clock w div 1000)"
    using login_token [of l e w s req m tok u] by (simp add: seconds_def)
  show "let issued = \<lparr>claim_id = i, claim_username = name, claim_iat = Some (int t0),
                      claim_nbf = None, claim_exp = Some (int t0 + 24 * 60 * 60)\<rparr>;
           token = jwt_sign l i name (jwt_secret e) t0
       in token = jwt_encode l (JWS HS256 issued (hmac l HS256 (jwt_secret e) issued))
          \<and> (jwt_decode l token = Some (JWS HS256 issued (hmac l HS256 (jwt_secret e) issued))
             \<longrightarrow> jwt_verify l token (jwt_secret e) now =
                   (if now < t0 + 24 * 60 * 60 then Inr issued else Inl TokenExpiredError))"
    using issued_then_verified [of l i name "jwt_secret e" t0 now]
    by (simp add: Let_def jwt_sign_payload)
qed

text \<open>
  The theorem at the token signed for the first sample user at second 1000 under the
  fallback secret: accepted one second later, expired one second after 24 hours; and
  at a token without expiry, which the gate accepts three centuries later.
\<close>

theorem token_accepted_iff_witness:
  "jwt_sign test_lib alice_id ''alice'' (jwt_secret test_env) 1000 = alice_token
   \<and> jwt_verify test_lib alice_token (jwt_secret test_env) 1001 = Inr alice_claims
   \<and> jwt_verify test_lib alice_token (jwt_secret test_env) 87401 = Inl TokenExpiredError
   \<and> authenticateToken test_lib test_env late_world
       (bare_request\<lparr>headers := bearer eternal_token\<rparr>) = Inr eternal_claims"
proof (intro conjI)
  have issued: "\<lparr>claim_id = alice_id, claim_username = ''alice'', claim_iat = Some (int 1000),
                 claim_nbf = None, claim_exp = Some (int 1000 + 24 * 60 * 60)\<rparr> = alice_claims"
    by (simp add: alice_claims_def)
  show sign: "jwt_sign test_lib alice_id ''alice'' (jwt_secret test_env) 1000 = alice_token"
    by (simp add: jwt_sign_payload test_secret test_lib_def alice_claims_def alice_id_def
        alice_token_def)
  have dec: "jwt_decode test_lib alice_token
               = Some (JWS HS256 alice_claims
                         (hmac test_lib HS256 (jwt_secret test_env) alice_claims))"
    by (simp add: decode_alice test_secret mac_alice)
  have v: "jwt_verify test_lib alice_token (jwt_secret test_env) now =
          (if now < 1000 + 24 * 60 * 60 then Inr alice_claims else Inl TokenExpiredError)"
    for now
    using token_accepted_iff [where l = test_lib and e = test_env and i = alice_id
        and name = "''alice''" and ?t0.0 = 1000 and now = now] dec
    unfolding Let_def issued sign by blast
  from v [of 1001]
  show "jwt_verify test_lib alice_token (jwt_secret test_env) 1001 = Inr alice_claims"
    by simp
  from v [of 87401]
  show "jwt_verify test_lib alice_token (jwt_secret test_env) 87401 = Inl TokenExpiredError"
    by simp
next
  let ?r = "bare_request\<lparr>headers := bearer eternal_token\<rparr>"
  have "getTokenFromHeader ?r = Some eternal_token"
    by (simp add: getToken_bearer no_space_tokens)
  moreover have "jwt_decode test_lib eternal_token
      = Some (JWS HS256 eternal_claims
                (hmac test_lib HS256 (jwt_secret test_env) eternal_claims))"
    by (simp add: decode_eternal test_secret mac_eternal)
  moreover have "\<forall>n. claim_nbf eternal_claims = Some n
                   \<longrightarrow> n \<le> int (clock late_world div 1000)"
    and "\<forall>x. claim_exp eternal_claims = Some x \<longrightarrow> int (clock late_world div 1000) < x"
    by (simp_all add: nbf_samples exp_samples)
  moreover have "HS256 \<in> {HS256, HS384, HS512}"
    by simp
  ultimately show "authenticateToken test_lib test_env late_world ?r = Inr eternal_claims"
    using nonempty_tokens(4)
      token_accepted_iff [where l = test_lib and e = test_env and w = late_world
        and req = "?r" and p = eternal_claims, THEN conjunct1]
    by blast
qed

text \<open>
  The claim as the specification words it fails in both directions. A token whose
  signature verifies under the server's secret and whose expiry (second 200000) lies
  after the clock of the request (second 2000) is refused with 403, because its
  not-before time has not come. And a token that carries no expiry at all, so that
  no moment is before its expiry, is accepted whenever it is presented.
\<close>

theorem signed_unexpired_token_refused:
  "jwt_decode test_lib early_token
     = Some (JWS HS256 early_claims (hmac test_lib HS256 (jwt_secret test_env) early_claims))
   \<and> claim_exp early_claims = Some 200000
   \<and> clock test_world div 1000 = 2000
   \<and> authenticateToken test_lib test_env test_world
       (bare_request\<lparr>headers := bearer early_token\<rparr>)
     = Inl \<lparr>status = 403, res_body = Message ''Invalid or expired token''\<rparr>
   \<and> jwt_decode test_lib eternal_token
     = Some (JWS HS256 eternal_claims
               (hmac test_lib HS256 (jwt_secret test_env) eternal_claims))
   \<and> claim_exp eternal_claims = None
   \<and> clock late_world div 1000 = 10000000000
   \<and> authenticateToken test_lib test_env late_world
       (bare_request\<lparr>headers := bearer eternal_token\<rparr>) = Inr eternal_claims"
proof (intro conjI)
  show "jwt_decode test_lib early_token
     = Some (JWS HS256 early_claims (hmac test_lib HS256 (jwt_secret test_env) early_claims))"
    by (simp add: decode_early test_secret mac_early)
  show "claim_exp early_claims = Some 200000"
    by (rule exp_samples)
  show "clock test_world div 1000 = 2000"
    by (simp add: test_world_def)
  have "getTokenFromHeader (bare_request\<lparr>headers := bearer early_token\<rparr>) = Some early_token"
    by (simp add: getToken_bearer no_space_tokens)
  then show "authenticateToken test_lib test_env test_world
       (bare_request\<lparr>headers := bearer early_token\<rparr>)
     = Inl \<lparr>status = 403, res_body = Message ''Invalid or expired token''\<rparr>"
    by (simp add: authenticateToken_def falsy_def nonempty_tokens test_secret
        seconds_test_world verify_early)
  show "jwt_decode test_lib eternal_token
     = Some (JWS HS256 eternal_claims
               (hmac test_lib HS256 (jwt_secret test_env) eternal_claims))"
    by (simp add: decode_eternal test_secret mac_eternal)
  show "claim_exp eternal_claims = None"
    by (rule exp_samples)
  show "clock late_world div 1000 = 10000000000"
    by (simp add: late_world_def)
  have "getTokenFromHeader (bare_request\<lparr>headers := bearer eternal_token\<rparr>)
          = Some eternal_token"
    by (simp add: getToken_bearer no_space_tokens)
  then show "authenticateToken test_lib test_env late_world
       (bare_request\<lparr>headers := bearer eternal_token\<rparr>) = Inr eternal_claims"
    by (simp add: authenticateToken_Inr_iff nonempty_tokens test_secret verify_eternal)
qed

section \<open>Upload validation\<close>

text \<open>
  Claim C8. A file whose content type does not start with \<open>image/\<close>, and a file of more
  than 5 MiB, is refused by the upload middleware, and the request that carries it ends
  with an error status, the store as it was and no call to the storage provider.
  Whatever buffer a create or update request does hand to the provider is the buffer
  of its file, that file is of an image type, and it has at most 5 MiB.
\<close>

theorem upload_validated_before_handoff:
  "(file_part req = Some f
      \<and> (\<not> startsWith (mimetype f) ''image/'' \<or> 5 * 1024 * 1024 < length (buffer f))
    \<longrightarrow> (\<exists>err. upload_single (file_part req) = Inl err)
        \<and> (\<forall>out \<in> {POST_api_posts l e w s req, PUT_api_posts_id l e w s req}.
              uploads out = [] \<and> db out = s \<and> status (resp out) \<in> {401, 403, 500}))
   \<and> (\<forall>out \<in> {POST_api_posts l e w s req, PUT_api_posts_id l e w s req}.
        \<forall>b \<in> set (uploads out).
          \<exists>g. file_part req = Some g \<and> b = buffer g \<and> startsWith (mimetype g) ''image/''
              \<and> length b \<le> 5 * 1024 * 1024)"
proof (intro conjI impI)
  assume a: "file_part req = Some f
      \<and> (\<not> startsWith (mimetype f) ''image/'' \<or> 5 * 1024 * 1024 < length (buffer f))"
  then show rej: "\<exists>err. upload_single (file_part req) = Inl err"
    by (auto simp: upload_single_Inl fileFilter_def fileSize_def)
  then obtain err where "upload_single (file_part req) = Inl err" ..
  from rejected_file_routes [OF this, of l e w s]
  show "\<forall>out \<in> {POST_api_posts l e w s req, PUT_api_posts_id l e w s req}.
              uploads out = [] \<and> db out = s \<and> status (resp out) \<in> {401, 403, 500}"
    by simp
next
  show "\<forall>out \<in> {POST_api_posts l e w s req, PUT_api_posts_id l e w s req}.
        \<forall>b \<in> set (uploads out).
          \<exists>g. file_part req = Some g \<and> b = buffer g \<and> startsWith (mimetype g) ''image/''
              \<and> length b \<le> 5 * 1024 * 1024"
    using post_route_uploads [of _ l e w s req] put_route_uploads [of _ l e w s req]
    by (fastforce simp: fileFilter_def fileSize_def)
qed

text \<open>
  The theorem at a text file and at an image of 5 MiB and one byte (both refused, no
  call to the provider), and at a small image (handed to the provider).
\<close>

theorem upload_validated_before_handoff_witness:
  "upload_single (Some text_file) = Inl (FilterError ''Only image files are allowed!'')
   \<and> uploads (POST_api_posts test_lib test_env test_world_ok test_store
        (bare_request\<lparr>headers := bearer alice_token, file_part := Some text_file\<rparr>)) = []
   \<and> db (POST_api_posts test_lib test_env test_world_ok test_store
        (bare_request\<lparr>headers := bearer alice_token, file_part := Some text_file\<rparr>))
       = test_store
   \<and> uploads (PUT_api_posts_id test_lib test_env test_world_ok test_store
        (bare_request\<lparr>headers := bearer alice_token, params_id := post_x_id,
           file_part := Some \<lparr>mimetype = ''image/png'', buffer = replicate 5242881 0\<rparr>\<rparr>))
       = []
   \<and> uploads (POST_api_posts test_lib test_env test_world_ok test_store
        (bare_request\<lparr>headers := bearer alice_token, file_part := Some png_file\<rparr>))
       = [buffer png_file]
   \<and> startsWith (mimetype png_file) ''image/''
   \<and> length (buffer png_file) \<le> 5 * 1024 * 1024"
proof (intro conjI)
  let ?t = "bare_request\<lparr>headers := bearer alice_token, file_part := Some text_file\<rparr>"
  have t: "file_part ?t = Some text_file
           \<and> (\<not> startsWith (mimetype text_file) ''image/''
                \<or> 5 * 1024 * 1024 < length (buffer text_file))"
    by (simp add: startsWith_def text_file_def)
  note T = upload_validated_before_handoff [where req = "?t" and f = text_file
      and l = test_lib and e = test_env and w = test_world_ok and s = test_store]
  show "upload_single (Some text_file) = Inl (FilterError ''Only image files are allowed!'')"
    by (rule upload_single_samples)
  from T t show "uploads (POST_api_posts test_lib test_env test_world_ok test_store ?t) = []"
    by blast
  from T t show "db (POST_api_posts test_lib test_env test_world_ok test_store ?t) = test_store"
    by blast
next
  let ?big = "\<lparr>mimetype = ''image/png'', buffer = replicate 5242881 0\<rparr>"
  let ?r = "bare_request\<lparr>headers := bearer alice_token, params_id := post_x_id,
                          file_part := Some ?big\<rparr>"
  have "file_part ?r = Some ?big
        \<and> (\<not> startsWith (mimetype ?big) ''image/'' \<or> 5 * 1024 * 1024 < length (buffer ?big))"
    by simp
  with upload_validated_before_handoff [where req = "?r" and f = "?big"
      and l = test_lib and e = test_env and w = test_world_ok and s = test_store]
  show "uploads (PUT_api_posts_id test_lib test_env test_world_ok test_store ?r) = []"
    by blast
next
  let ?p = "bare_request\<lparr>headers := bearer alice_token, file_part := Some png_file\<rparr>"
  have auth: "authenticateToken test_lib test_env test_world_ok ?p = Inr alice_claims"
    by (simp add: auth_alice seconds_test_world)
  show ups: "uploads (POST_api_posts test_lib test_env test_world_ok test_store ?p)
               = [buffer png_file]"
    by (simp add: POST_api_posts_def auth upload_single_samples create_handler_uploads)
  then have "buffer png_file
       \<in> set (uploads (POST_api_posts test_lib test_env test_world_ok test_store ?p))"
    by simp
  with upload_validated_before_handoff [where req = "?p"
      and l = test_lib and e = test_env and w = test_world_ok and s = test_store]
  have "\<exists>g. file_part ?p = Some g \<and> buffer png_file = buffer g
            \<and> startsWith (mimetype g) ''image/''
            \<and> length (buffer png_file) \<le> 5 * 1024 * 1024"
    by blast
  then show "startsWith (mimetype png_file) ''image/''"
    and "length (buffer png_file) \<le> 5 * 1024 * 1024"
    by auto
qed

section \<open>A failed upload\<close>

text \<open>
  Claim C1. Whenever a create or update request has handed a buffer to the storage
  provider and the provider has answered with an error, the response is 500 and the
  store is the store before the request: create has added no article, update has left
  the stored article as it was. Spelled out for a request that passes the gate and the
  upload middleware with a file: create answers 500 at once, and so does update on an
  existing article of the caller.
\<close>

theorem failed_upload_aborts_write:
  "(\<forall>out \<in> {POST_api_posts l e w s req, PUT_api_posts_id l e w s req}.
      (\<exists>b \<in> set (uploads out). \<exists>err. uploadToCloudinary w b = Inl err)
      \<longrightarrow> status (resp out) = 500 \<and> db out = s)
   \<and> (authenticateToken l e w req = Inr user \<and> upload_single (file_part req) = Inr (Some f)
        \<and> uploadToCloudinary w (buffer f) = Inl err
      \<longrightarrow> POST_api_posts l e w s req
            = reply 500 (Message ''Failed to upload image'') s [buffer f]
          \<and> (\<forall>post. BlogPost_findById s (params_id req) = Inr (Some post)
                    \<and> author post = claim_id user
               \<longrightarrow> PUT_api_posts_id l e w s req
                     = reply 500 (Message ''Failed to upload image'') s [buffer f]))"
proof (intro conjI impI ballI allI)
  fix out
  assume out: "out \<in> {POST_api_posts l e w s req, PUT_api_posts_id l e w s req}"
    and fails: "\<exists>b \<in> set (uploads out). \<exists>err. uploadToCloudinary w b = Inl err"
  then obtain b err where b: "b \<in> set (uploads out)" and err: "uploadToCloudinary w b = Inl err"
    by blast
  from out consider "out = POST_api_posts l e w s req" | "out = PUT_api_posts_id l e w s req"
    by blast
  then have "out = reply 500 (Message ''Failed to upload image'') s [b]"
  proof cases
    case 1
    with b post_route_uploads [of b l e w s req] err show ?thesis
      by (auto simp: create_handler_failed_upload)
  next
    case 2
    with b put_route_uploads [of b l e w s req] err show ?thesis
      by (auto simp: update_handler_failed_upload)
  qed
  then show "status (resp out) = 500" and "db out = s"
    by simp_all
next
  assume a: "authenticateToken l e w req = Inr user \<and> upload_single (file_part req) = Inr (Some f)
        \<and> uploadToCloudinary w (buffer f) = Inl err"
  then show "POST_api_posts l e w s req
            = reply 500 (Message ''Failed to upload image'') s [buffer f]"
    by (simp add: POST_api_posts_def create_handler_failed_upload)
  fix post
  assume "BlogPost_findById s (params_id req) = Inr (Some post) \<and> author post = claim_id user"
  with a show "PUT_api_posts_id l e w s req
                     = reply 500 (Message ''Failed to upload image'') s [buffer f]"
    by (simp add: PUT_api_posts_id_def update_handler_failed_upload)
qed

text \<open>
  The theorem in the world whose provider refuses every upload: a create and an update
  of the first sample user, each with a small image.
\<close>

theorem failed_upload_aborts_write_witness:
  "POST_api_posts test_lib test_env test_world test_store
     (bare_request\<lparr>headers := bearer alice_token, params_id := post_x_id,
                    file_part := Some png_file\<rparr>)
     = reply 500 (Message ''Failed to upload image'') test_store [buffer png_file]
   \<and> PUT_api_posts_id test_lib test_env test_world test_store
     (bare_request\<lparr>headers := bearer alice_token, params_id := post_x_id,
                    file_part := Some png_file\<rparr>)
     = reply 500 (Message ''Failed to upload image'') test_store [buffer png_file]"
proof -
  let ?r = "bare_request\<lparr>headers := bearer alice_token, params_id := post_x_id,
                          file_part := Some png_file\<rparr>"
  have "authenticateToken test_lib test_env test_world ?r = Inr alice_claims"
    by (simp add: auth_alice seconds_test_world)
  moreover have "upload_single (file_part ?r) = Inr (Some png_file)"
    by (simp add: upload_single_samples)
  moreover have "BlogPost_findById test_store (params_id ?r) = Inr (Some post_x)"
    by (simp add: find_post_x)
  moreover note upload_refused [of "buffer png_file"] owner_samples(1)
  ultimately show ?thesis
    using failed_upload_aborts_write [where l = test_lib and e = test_env and w = test_world
        and s = test_store and req = "?r" and user = alice_claims and f = png_file
        and err = "''provider unreachable''"]
    by blast
qed

section \<open>Ownership\<close>

text \<open>
  Claim C2, as the code has it. Let a request pass the gate with the claims of an
  identity other than the owner of the existing article it addresses. A delete is
  answered 403. An update is answered 403 when the upload middleware lets the request
  through; when the middleware refuses the attached file, the request ends with 500
  before the handler and its ownership check run. In every case the store is left as
  it was and nothing is handed to the storage provider.
\<close>

theorem non_owner_forbidden:
  "authenticateToken l e w req = Inr user
   \<and> BlogPost_findById s (params_id req) = Inr (Some x)
   \<and> author x \<noteq> claim_id user
   \<longrightarrow> DELETE_api_posts_id l e w s req
         = reply 403 (Message ''Not authorized to delete this post'') s []
     \<and> ((\<exists>file. upload_single (file_part req) = Inr file)
          \<longrightarrow> PUT_api_posts_id l e w s req
                = reply 403 (Message ''Not authorized to edit this post'') s [])
     \<and> ((\<exists>err. upload_single (file_part req) = Inl err)
          \<longrightarrow> PUT_api_posts_id l e w s req = reply 500 ErrorPage s [])
     \<and> db (PUT_api_posts_id l e w s req) = s
     \<and> uploads (PUT_api_posts_id l e w s req) = []"
proof (intro impI)
  assume a: "authenticateToken l e w req = Inr user
   \<and> BlogPost_findById s (params_id req) = Inr (Some x)
   \<and> author x \<noteq> claim_id user"
  have del: "DELETE_api_posts_id l e w s req
         = reply 403 (Message ''Not authorized to delete this post'') s []"
    using a by (simp add: DELETE_api_posts_id_def delete_handler_forbidden)
  have ok: "PUT_api_posts_id l e w s req
                = reply 403 (Message ''Not authorized to edit this post'') s []"
    if "\<exists>file. upload_single (file_part req) = Inr file"
    using a that by (auto simp: PUT_api_posts_id_def update_handler_forbidden)
  have bad: "PUT_api_posts_id l e w s req = reply 500 ErrorPage s []"
    if "\<exists>err. upload_single (file_part req) = Inl err"
    using a that by (auto simp: PUT_api_posts_id_def express_error_def)
  have "(\<exists>file. upload_single (file_part req) = Inr file)
        \<or> (\<exists>err. upload_single (file_part req) = Inl err)"
    by (cases "upload_single (file_part req)") auto
  with ok bad have "db (PUT_api_posts_id l e w s req) = s"
    and "uploads (PUT_api_posts_id l e w s req) = []"
    by auto
  with del ok bad show "DELETE_api_posts_id l e w s req
         = reply 403 (Message ''Not authorized to delete this post'') s []
     \<and> ((\<exists>file. upload_single (file_part req) = Inr file)
          \<longrightarrow> PUT_api_posts_id l e w s req
                = reply 403 (Message ''Not authorized to edit this post'') s [])
     \<and> ((\<exists>err. upload_single (file_part req) = Inl err)
          \<longrightarrow> PUT_api_posts_id l e w s req = reply 500 ErrorPage s [])
     \<and> db (PUT_api_posts_id l e w s req) = s
     \<and> uploads (PUT_api_posts_id l e w s req) = []"
    by blast
qed

text \<open>
  The theorem at the second sample user and the article of the first: a delete, and
  an update with a small image.
\<close>

theorem non_owner_forbidden_witness:
  "DELETE_api_posts_id test_lib test_env test_world_ok test_store
     (bare_request\<lparr>headers := bearer bob_token, params_id := post_x_id,
                    file_part := Some png_file\<rparr>)
     = reply 403 (Message ''Not authorized to delete this post'') test_store []
   \<and> PUT_api_posts_id test_lib test_env test_world_ok test_store
     (bare_request\<lparr>headers := bearer bob_token, params_id := post_x_id,
                    file_part := Some png_file\<rparr>)
     = reply 403 (Message ''Not authorized to edit this post'') test_store []"
proof -
  let ?r = "bare_request\<lparr>headers := bearer bob_token, params_id := post_x_id,
                          file_part := Some png_file\<rparr>"
  have "authenticateToken test_lib test_env test_world_ok ?r = Inr bob_claims"
    by (simp add: auth_bob seconds_test_world)
  moreover have "BlogPost_findById test_store (params_id ?r) = Inr (Some post_x)"
    by (simp add: find_post_x)
  moreover have "\<exists>file. upload_single (file_part ?r) = Inr file"
    by (simp add: upload_single_samples)
  moreover note owner_samples(2)
  ultimately show ?thesis
    using non_owner_forbidden [where l = test_lib and e = test_env and w = test_world_ok
        and s = test_store and req = "?r" and user = bob_claims and x = post_x]
    by blast
qed

text \<open>
  The claim as the specification words it fails: an update by the second sample user
  of the first user's article, with a text file attached, is answered 500, not 403.
\<close>

theorem non_owner_update_rejected_upload:
  "authenticateToken test_lib test_env test_world_ok
     (bare_request\<lparr>headers := bearer bob_token, params_id := post_x_id,
                    file_part := Some text_file\<rparr>) = Inr bob_claims
   \<and> BlogPost_findById test_store post_x_id = Inr (Some post_x)
   \<and> author post_x = alice_id
   \<and> claim_id bob_claims = bob_id
   \<and> alice_id \<noteq> bob_id
   \<and> status (resp (PUT_api_posts_id test_lib test_env test_world_ok test_store
        (bare_request\<lparr>headers := bearer bob_token, params_id := post_x_id,
                       file_part := Some text_file\<rparr>))) = 500"
proof -
  let ?r = "bare_request\<lparr>headers := bearer bob_token, params_id := post_x_id,
                          file_part := Some text_file\<rparr>"
  have auth: "authenticateToken test_lib test_env test_world_ok ?r = Inr bob_claims"
    by (simp add: auth_bob seconds_test_world)
  have "status (resp (PUT_api_posts_id test_lib test_env test_world_ok test_store ?r)) = 500"
    by (simp add: PUT_api_posts_id_def auth upload_single_samples)
  moreover have "author post_x = alice_id" "claim_id bob_claims = bob_id" "alice_id \<noteq> bob_id"
    by (simp_all add: post_x_def bob_claims_def alice_id_def bob_id_def)
  ultimately show ?thesis
    using auth find_post_x by simp
qed

section \<open>Updates and the image reference\<close>

text \<open>
  Claim C5. An update request that carries no file leaves the image reference of every
  stored article as it was, whatever the request's outcome; in particular the article
  the request addresses is still there afterwards, with the image reference it had.
\<close>

theorem update_without_file_keeps_image:
  "file_part req = None \<longrightarrow>
     map (\<lambda>p. (post_id p, imageUrl p)) (posts (db (PUT_api_posts_id l e w s req)))
       = map (\<lambda>p. (post_id p, imageUrl p)) (posts s)
     \<and> (BlogPost_findById s (params_id req) = Inr (Some x) \<longrightarrow>
          (\<exists>x'. BlogPost_findById (db (PUT_api_posts_id l e w s req)) (params_id req)
                   = Inr (Some x')
               \<and> imageUrl x' = imageUrl x))"
  using put_route_no_file [of req l e w s x] by blast

text \<open>
  The theorem at an update by the owner of the sample article that sets a new title
  and carries no file: it succeeds, the title is the new one, the image reference is
  the old one.
\<close>

theorem update_without_file_keeps_image_witness:
  "status (resp (PUT_api_posts_id test_lib test_env test_world_ok test_store
     (bare_request\<lparr>headers := bearer alice_token, params_id := post_x_id,
                    req_body := [''title'' \<mapsto> ''New'']\<rparr>))) = 200
   \<and> map title (posts (db (PUT_api_posts_id test_lib test_env test_world_ok test_store
     (bare_request\<lparr>headers := bearer alice_token, params_id := post_x_id,
                    req_body := [''title'' \<mapsto> ''New'']\<rparr>)))) = [''New'']
   \<and> map (\<lambda>p. (post_id p, imageUrl p))
       (posts (db (PUT_api_posts_id test_lib test_env test_world_ok test_store
         (bare_request\<lparr>headers := bearer alice_token, params_id := post_x_id,
                        req_body := [''title'' \<mapsto> ''New'']\<rparr>))))
     = [(post_x_id, ''https://img.example/x.png'')]"
proof (intro conjI)
  let ?r = "bare_request\<lparr>headers := bearer alice_token, params_id := post_x_id,
                          req_body := [''title'' \<mapsto> ''New'']\<rparr>"
  let ?out = "PUT_api_posts_id test_lib test_env test_world_ok test_store ?r"
  show "status (resp ?out) = 200"
    by (simp add: put_alice)
  show "map title (posts (db ?out)) = [''New'']"
    by (simp add: put_alice post_x_new_def)
  have "file_part ?r = None"
    by (simp add: bare_request_def)
  with update_without_file_keeps_image [where req = "?r" and l = test_lib and e = test_env
      and w = test_world_ok and s = test_store]
  have "map (\<lambda>p. (post_id p, imageUrl p)) (posts (db ?out))
          = map (\<lambda>p. (post_id p, imageUrl p)) (posts test_store)"
    by blast
  then show "map (\<lambda>p. (post_id p, imageUrl p)) (posts (db ?out))
               = [(post_x_id, ''https://img.example/x.png'')]"
    by (simp add: test_store_def post_x_def)
qed

section \<open>The owner of an article\<close>

text \<open>
  Claim C6, as the code has it. A successful create appends one article whose owner is
  the ObjectId that the \<open>id\<close> of the caller's claims casts to. An update request,
  whatever its outcome, leaves every stored article equal to what it was in all fields
  but \<open>title\<close>, \<open>subtitle\<close>, \<open>content\<close>, \<open>imageUrl\<close> and the modification timestamp
  \<open>updatedAt\<close>, which the schema's \<open>timestamps\<close> option has the store set on every
  update; in particular the \<open>_id\<close>, the owner and the creation timestamp stay, and so
  do the users.
\<close>

theorem owner_never_changes:
  "(status (resp (POST_api_posts l e w s req)) = 201 \<longrightarrow>
      (\<exists>user p. authenticateToken l e w req = Inr user
         \<and> db (POST_api_posts l e w s req) = s\<lparr>posts := posts s @ [p]\<rparr>
         \<and> castObjectId (claim_id user) = Some (author p)))
   \<and> list_all2 (\<lambda>p p'. p'\<lparr>title := title p, subtitle := subtitle p, content := content p,
                            imageUrl := imageUrl p, updatedAt := updatedAt p\<rparr> = p)
        (posts s) (posts (db (PUT_api_posts_id l e w s req)))
   \<and> map (\<lambda>p. (post_id p, author p, createdAt p)) (posts (db (PUT_api_posts_id l e w s req)))
       = map (\<lambda>p. (post_id p, author p, createdAt p)) (posts s)
   \<and> users (db (PUT_api_posts_id l e w s req)) = users s"
  using post_route_created [of l e w s req] put_route_frame [of s l e w req]
    put_route_owner [of l e w s req]
  by blast

text \<open>
  The theorem at a create and at an update by the first sample user.
\<close>

theorem owner_never_changes_witness:
  "status (resp (POST_api_posts test_lib test_env test_world_ok test_store
     (bare_request\<lparr>headers := bearer alice_token,
        req_body := [''title'' \<mapsto> ''Second'', ''content'' \<mapsto> ''Text'']\<rparr>))) = 201
   \<and> posts (db (POST_api_posts test_lib test_env test_world_ok test_store
     (bare_request\<lparr>headers := bearer alice_token,
        req_body := [''title'' \<mapsto> ''Second'', ''content'' \<mapsto> ''Text'']\<rparr>)))
      = posts test_store @ [post_y]
   \<and> castObjectId (claim_id alice_claims) = Some (author post_y)
   \<and> status (resp (PUT_api_posts_id test_lib test_env test_world_ok test_store
     (bare_request\<lparr>headers := bearer alice_token, params_id := post_x_id,
                    req_body := [''title'' \<mapsto> ''New'']\<rparr>))) = 200
   \<and> map author (posts (db (PUT_api_posts_id test_lib test_env test_world_ok test_store
     (bare_request\<lparr>headers := bearer alice_token, params_id := post_x_id,
                    req_body := [''title'' \<mapsto> ''New'']\<rparr>)))) = [alice_id]"
proof (intro conjI)
  let ?c = "bare_request\<lparr>headers := bearer alice_token,
        req_body := [''title'' \<mapsto> ''Second'', ''content'' \<mapsto> ''Text'']\<rparr>"
  let ?out = "POST_api_posts test_lib test_env test_world_ok test_store ?c"
  show created: "status (resp ?out) = 201"
    by (simp add: post_alice)
  have "posts test_store @ [post_y] = [post_x, post_y]"
    by (simp add: test_store_def)
  then show stored: "posts (db ?out) = posts test_store @ [post_y]"
    by (simp add: post_alice)
  have auth: "authenticateToken test_lib test_env test_world_ok ?c = Inr alice_claims"
    by (simp add: auth_alice seconds_test_world)
  from created owner_never_changes [where req = "?c" and l = test_lib and e = test_env
      and w = test_world_ok and s = test_store]
  obtain user p where "authenticateToken test_lib test_env test_world_ok ?c = Inr user"
    and "db ?out = test_store\<lparr>posts := posts test_store @ [p]\<rparr>"
    and owner: "castObjectId (claim_id user) = Some (author p)"
    by blast
  with auth stored have "user = alice_claims" and "p = post_y"
    by simp_all
  with owner show "castObjectId (claim_id alice_claims) = Some (author post_y)"
    by simp
next
  let ?r = "bare_request\<lparr>headers := bearer alice_token, params_id := post_x_id,
                          req_body := [''title'' \<mapsto> ''New'']\<rparr>"
  let ?out = "PUT_api_posts_id test_lib test_env test_world_ok test_store ?r"
  show "status (resp ?out) = 200"
    by (simp add: put_alice)
  from owner_never_changes [where req = "?r" and l = test_lib and e = test_env
      and w = test_world_ok and s = test_store]
  have "map (\<lambda>p. (post_id p, author p, createdAt p)) (posts (db ?out))
          = map (\<lambda>p. (post_id p, author p, createdAt p)) (posts test_store)"
    by blast
  then have "map (fst \<circ> snd) (map (\<lambda>p. (post_id p, author p, createdAt p)) (posts (db ?out)))
          = map (fst \<circ> snd) (map (\<lambda>p. (post_id p, author p, createdAt p)) (posts test_store))"
    by simp
  then show "map author (posts (db ?out)) = [alice_id]"
    by (simp add: comp_def test_store_def post_x_def)
qed

text \<open>
  The claim as the specification words it fails: after a successful update by its
  owner the stored article differs from the article before in more than the image
  reference and the textual fields, for its \<open>updatedAt\<close> has moved to the clock of
  the update.
\<close>

theorem update_sets_updatedAt:
  "status (resp (PUT_api_posts_id test_lib test_env test_world_ok test_store
     (bare_request\<lparr>headers := bearer alice_token, params_id := post_x_id,
                    req_body := [''title'' \<mapsto> ''New'']\<rparr>))) = 200
   \<and> posts test_store = [post_x]
   \<and> posts (db (PUT_api_posts_id test_lib test_env test_world_ok test_store
     (bare_request\<lparr>headers := bearer alice_token, params_id := post_x_id,
                    req_body := [''title'' \<mapsto> ''New'']\<rparr>))) = [post_x_new]
   \<and> post_x_new\<lparr>title := title post_x, subtitle := subtitle post_x,
                  content := content post_x, imageUrl := imageUrl post_x\<rparr> \<noteq> post_x
   \<and> updatedAt post_x = 1000000
   \<and> updatedAt post_x_new = 2000000"
proof -
  have "posts test_store = [post_x]"
    by (simp add: test_store_def)
  moreover have "updatedAt post_x = 1000000" "updatedAt post_x_new = 2000000"
    by (simp_all add: post_x_new_def post_x_def)
  moreover have "post_x_new\<lparr>title := title post_x, subtitle := subtitle post_x,
                  content := content post_x, imageUrl := imageUrl post_x\<rparr> \<noteq> post_x"
  proof
    assume "post_x_new\<lparr>title := title post_x, subtitle := subtitle post_x,
                  content := content post_x, imageUrl := imageUrl post_x\<rparr> = post_x"
    then have "updatedAt (post_x_new\<lparr>title := title post_x, subtitle := subtitle post_x,
                  content := content post_x, imageUrl := imageUrl post_x\<rparr>)
                = updatedAt post_x"
      by (rule arg_cong)
    then show False
      by (simp add: post_x_new_def post_x_def)
  qed
  ultimately show ?thesis
    by (simp add: put_alice)
qed

section \<open>Validation failures\<close>

text \<open>
  Claim C9, as the code has it. A signup whose email or username is that of a stored
  user is answered 400, the store unchanged. A create that passes the gate and the
  upload middleware but lacks a title or a content (undefined or empty) fails the
  validation of \<open>save()\<close>, is caught by the handler's only \<open>catch\<close> and answered 500,
  the store unchanged: no article route answers 400.
\<close>

theorem validation_failures_reported:
  "((\<exists>u \<in> set (users s). req_body req ''email'' = Some (user_email u)
                          \<or> req_body req ''username'' = Some (user_username u))
      \<longrightarrow> POST_api_auth_signup l e w s req
            = reply 400 (Message ''User already exists'') s [])
   \<and> (authenticateToken l e w req = Inr user
        \<and> upload_single (file_part req) = Inr f
        \<and> (req_body req ''title'' \<in> {None, Some []} \<or> req_body req ''content'' \<in> {None, Some []})
      \<longrightarrow> status (resp (POST_api_posts l e w s req)) = 500
          \<and> db (POST_api_posts l e w s req) = s)"
proof (intro conjI impI)
  assume "\<exists>u \<in> set (users s). req_body req ''email'' = Some (user_email u)
                          \<or> req_body req ''username'' = Some (user_username u)"
  then show "POST_api_auth_signup l e w s req
            = reply 400 (Message ''User already exists'') s []"
    by (rule signup_duplicate)
next
  assume a: "authenticateToken l e w req = Inr user
        \<and> upload_single (file_part req) = Inr f
        \<and> (req_body req ''title'' \<in> {None, Some []} \<or> req_body req ''content'' \<in> {None, Some []})"
  then have inv: "\<not> required (req_body req ''title'') \<or> \<not> required (req_body req ''content'')"
    by (auto simp: required_def)
  from a have eq: "POST_api_posts l e w s req = create_handler w s user f req"
    by (simp add: POST_api_posts_def)
  from create_handler_invalid [OF inv, of w s user f] eq
  show "status (resp (POST_api_posts l e w s req)) = 500"
    and "db (POST_api_posts l e w s req) = s"
    by simp_all
qed

text \<open>
  The theorem at a signup with the email of the first sample user, and at a create
  without a title.
\<close>

theorem validation_failures_reported_witness:
  "POST_api_auth_signup test_lib test_env test_world test_store
     (bare_request\<lparr>req_body := [''username'' \<mapsto> ''carol'', ''email'' \<mapsto> ''a@x.com'',
                                  ''password'' \<mapsto> ''pw3'']\<rparr>)
     = reply 400 (Message ''User already exists'') test_store []
   \<and> status (resp (POST_api_posts test_lib test_env test_world_ok test_store
        (bare_request\<lparr>headers := bearer alice_token,
                       req_body := [''content'' \<mapsto> ''Text'']\<rparr>))) = 500
   \<and> db (POST_api_posts test_lib test_env test_world_ok test_store
        (bare_request\<lparr>headers := bearer alice_token,
                       req_body := [''content'' \<mapsto> ''Text'']\<rparr>)) = test_store"
proof -
  let ?u = "bare_request\<lparr>req_body := [''username'' \<mapsto> ''carol'', ''email'' \<mapsto> ''a@x.com'',
                                       ''password'' \<mapsto> ''pw3'']\<rparr>"
  let ?p = "bare_request\<lparr>headers := bearer alice_token,
                          req_body := [''content'' \<mapsto> ''Text'']\<rparr>"
  have "alice_user \<in> set (users test_store)"
    by (simp add: test_store_def)
  moreover have "req_body ?u ''email'' = Some (user_email alice_user)"
    by (simp add: alice_user_def)
  ultimately have dup: "\<exists>u \<in> set (users test_store).
      req_body ?u ''email'' = Some (user_email u)
      \<or> req_body ?u ''username'' = Some (user_username u)"
    by blast
  have 1: "POST_api_auth_signup test_lib test_env test_world test_store ?u
             = reply 400 (Message ''User already exists'') test_store []"
    using dup validation_failures_reported [where s = test_store and req = "?u"
        and l = test_lib and e = test_env and w = test_world]
    by blast
  have "authenticateToken test_lib test_env test_world_ok ?p = Inr alice_claims"
    by (simp add: auth_alice seconds_test_world)
  moreover have "upload_single (file_part ?p) = Inr None"
    by (simp add: bare_request_def upload_single_def)
  moreover have "req_body ?p ''title'' \<in> {None, Some []}"
    by simp
  ultimately have 2: "status (resp (POST_api_posts test_lib test_env test_world_ok test_store ?p))
                        = 500
      \<and> db (POST_api_posts test_lib test_env test_world_ok test_store ?p) = test_store"
    using validation_failures_reported [where s = test_store and req = "?p"
        and l = test_lib and e = test_env and w = test_world_ok and user = alice_claims
        and f = None]
    by blast
  from 1 2 show ?thesis
    by blast
qed

text \<open>
  The claim as the specification words it fails: a create by the first sample user
  that lacks the required title is answered 500, not 400.
\<close>

theorem missing_title_is_server_error:
  "req_body (bare_request\<lparr>headers := bearer alice_token,
                           req_body := [''content'' \<mapsto> ''Text'']\<rparr>) ''title'' = None
   \<and> authenticateToken test_lib test_env test_world_ok
       (bare_request\<lparr>headers := bearer alice_token,
                      req_body := [''content'' \<mapsto> ''Text'']\<rparr>) = Inr alice_claims
   \<and> POST_api_posts test_lib test_env test_world_ok test_store
       (bare_request\<lparr>headers := bearer alice_token,
                      req_body := [''content'' \<mapsto> ''Text'']\<rparr>)
     = reply 500 (Message ''Server error creating post'') test_store []"
proof -
  let ?p = "bare_request\<lparr>headers := bearer alice_token,
                          req_body := [''content'' \<mapsto> ''Text'']\<rparr>"
  have auth: "authenticateToken test_lib test_env test_world_ok ?p = Inr alice_claims"
    by (simp add: auth_alice seconds_test_world)
  have nofile: "upload_single (file_part ?p) = Inr None"
    by (simp add: bare_request_def upload_single_def)
  have body: "req_body ?p ''title'' = None" "req_body ?p ''subtitle'' = None"
    "req_body ?p ''content'' = Some ''Text''"
    by simp_all
  have "create_handler test_world_ok test_store alice_claims None ?p
          = reply 500 (Message ''Server error creating post'') test_store []"
    unfolding create_handler_def Let_def body
    by (simp add: save_invalid required_def)
  with auth nofile body(1) show ?thesis
    by (simp add: POST_api_posts_def)
qed

section \<open>Malformed article ids\<close>




section \<open>Signup, then login\<close>

text \<open>
  Claim C7. Let a signup succeed (status 201), and let bcrypt's compare accept the
  signup's password against the hash bcrypt made of it at the signup. Then a login
  on the store the signup left, at any later moment, with the email and the password
  of the signup, is answered 200, leaves the store as it is, and carries the user the
  signup returned (same \<open>_id\<close>, username and email) and a token signed for that \<open>_id\<close>
  and username.
\<close>

theorem signup_then_login:
  "status (resp (POST_api_auth_signup l e w s req)) = 201
   \<and> req_body req' ''email'' = req_body req ''email''
   \<and> req_body req' ''password'' = req_body req ''password''
   \<and> (\<forall>pw. req_body req ''password'' = Some pw
          \<longrightarrow> bcrypt_compare l pw (bcrypt_hash l pw (salt w)))
   \<longrightarrow> (\<exists>name mail.
          req_body req ''username'' = Some name \<and> req_body req ''email'' = Some mail
        \<and> res_body (resp (POST_api_auth_signup l e w s req))
            = AuthBody ''User created successfully''
                (jwt_sign l (new_ObjectId w) name (jwt_secret e) (seconds w))
                \<lparr>view_id = new_ObjectId w, view_username = name, view_email = mail\<rparr>
        \<and> POST_api_auth_login l e w' (db (POST_api_auth_signup l e w s req)) req'
            = reply 200
                (AuthBody ''Login successful''
                   (jwt_sign l (new_ObjectId w) name (jwt_secret e) (seconds w'))
                   \<lparr>view_id = new_ObjectId w, view_username = name, view_email = mail\<rparr>)
                (db (POST_api_auth_signup l e w s req)) [])"
proof
  assume a: "status (resp (POST_api_auth_signup l e w s req)) = 201
   \<and> req_body req' ''email'' = req_body req ''email''
   \<and> req_body req' ''password'' = req_body req ''password''
   \<and> (\<forall>pw. req_body req ''password'' = Some pw
          \<longrightarrow> bcrypt_compare l pw (bcrypt_hash l pw (salt w)))"
  then obtain name mail pw where
    f: "req_body req ''username'' = Some name" "req_body req ''email'' = Some mail"
       "req_body req ''password'' = Some pw"
    and fresh: "\<forall>u \<in> set (users s). user_email u \<noteq> mail \<and> user_username u \<noteq> name"
    and out: "POST_api_auth_signup l e w s req
             = reply 201
                 (AuthBody ''User created successfully''
                    (jwt_sign l (new_ObjectId w) name (jwt_secret e) (seconds w))
                    \<lparr>view_id = new_ObjectId w, view_username = name, view_email = mail\<rparr>)
                 (s\<lparr>users := users s @
                      [\<lparr>user_id = new_ObjectId w, user_username = name, user_email = mail,
                        user_password = bcrypt_hash l pw (salt w),
                        user_createdAt = clock w, user_updatedAt = clock w\<rparr>]\<rparr>) []"
    using signup_created [of l e w s req] by blast
  let ?u = "\<lparr>user_id = new_ObjectId w, user_username = name, user_email = mail,
             user_password = bcrypt_hash l pw (salt w),
             user_createdAt = clock w, user_updatedAt = clock w\<rparr>"
  from a f have f': "req_body req' ''email'' = Some mail" "req_body req' ''password'' = Some pw"
    by simp_all
  from a f have match: "bcrypt_compare l pw (bcrypt_hash l pw (salt w))"
    by blast
  have "find (\<lambda>u. Some mail = Some (user_email u)) (users s @ [?u]) = Some ?u"
    using fresh by (intro find_append_last) auto
  then have "POST_api_auth_login l e w' (s\<lparr>users := users s @ [?u]\<rparr>) req'
            = reply 200
                (AuthBody ''Login successful''
                   (jwt_sign l (new_ObjectId w) name (jwt_secret e) (seconds w'))
                   \<lparr>view_id = new_ObjectId w, view_username = name, view_email = mail\<rparr>)
                (s\<lparr>users := users s @ [?u]\<rparr>) []"
    using match
    by (simp add: POST_api_auth_login_def Let_def f' findOne_def user_json_def)
  with f out show "\<exists>name mail.
          req_body req ''username'' = Some name \<and> req_body req ''email'' = Some mail
        \<and> res_body (resp (POST_api_auth_signup l e w s req))
            = AuthBody ''User created successfully''
                (jwt_sign l (new_ObjectId w) name (jwt_secret e) (seconds w))
                \<lparr>view_id = new_ObjectId w, view_username = name, view_email = mail\<rparr>
        \<and> POST_api_auth_login l e w' (db (POST_api_auth_signup l e w s req)) req'
            = reply 200
                (AuthBody ''Login successful''
                   (jwt_sign l (new_ObjectId w) name (jwt_secret e) (seconds w'))
                   \<lparr>view_id = new_ObjectId w, view_username = name, view_email = mail\<rparr>)
                (db (POST_api_auth_signup l e w s req)) []"
    by simp
qed

text \<open>
  The theorem at the signup of a third user in the sample store, with the toy hash.
\<close>

theorem signup_then_login_witness:
  "status (resp (POST_api_auth_signup test_lib test_env test_world test_store
     (bare_request\<lparr>req_body := [''username'' \<mapsto> ''carol'', ''email'' \<mapsto> ''c@x.com'',
                                  ''password'' \<mapsto> ''pw3'']\<rparr>))) = 201
   \<and> POST_api_auth_login test_lib test_env test_world_ok
       (db (POST_api_auth_signup test_lib test_env test_world test_store
          (bare_request\<lparr>req_body := [''username'' \<mapsto> ''carol'', ''email'' \<mapsto> ''c@x.com'',
                                       ''password'' \<mapsto> ''pw3'']\<rparr>)))
       (bare_request\<lparr>req_body := [''email'' \<mapsto> ''c@x.com'', ''password'' \<mapsto> ''pw3'']\<rparr>)
     = reply 200
         (AuthBody ''Login successful''
            (jwt_sign test_lib fresh_id ''carol'' ''fallback_secret'' 2000)
            \<lparr>view_id = fresh_id, view_username = ''carol'', view_email = ''c@x.com''\<rparr>)
         (db (POST_api_auth_signup test_lib test_env test_world test_store
            (bare_request\<lparr>req_body := [''username'' \<mapsto> ''carol'', ''email'' \<mapsto> ''c@x.com'',
                                         ''password'' \<mapsto> ''pw3'']\<rparr>))) []"
proof -
  let ?r = "bare_request\<lparr>req_body := [''username'' \<mapsto> ''carol'', ''email'' \<mapsto> ''c@x.com'',
                                       ''password'' \<mapsto> ''pw3'']\<rparr>"
  let ?r' = "bare_request\<lparr>req_body := [''email'' \<mapsto> ''c@x.com'', ''password'' \<mapsto> ''pw3'']\<rparr>"
  have same: "req_body ?r' ''email'' = req_body ?r ''email''"
    "req_body ?r' ''password'' = req_body ?r ''password''"
    by simp_all
  have bcrypt: "\<forall>pw. req_body ?r ''password'' = Some pw
          \<longrightarrow> bcrypt_compare test_lib pw (bcrypt_hash test_lib pw (salt test_world))"
    by (simp add: test_lib_def)
  have w: "new_ObjectId test_world = fresh_id"
    by (simp add: test_world_def)
  from signup_carol same bcrypt
    signup_then_login [where l = test_lib and e = test_env and w = test_world
      and s = test_store and req = "?r" and req' = "?r'" and w' = test_world_ok]
  obtain name mail where "req_body ?r ''username'' = Some name"
    and "req_body ?r ''email'' = Some mail"
    and login: "POST_api_auth_login test_lib test_env test_world_ok
            (db (POST_api_auth_signup test_lib test_env test_world test_store ?r)) ?r'
            = reply 200
                (AuthBody ''Login successful''
                   (jwt_sign test_lib (new_ObjectId test_world) name (jwt_secret test_env)
                      (seconds test_world_ok))
                   \<lparr>view_id = new_ObjectId test_world, view_username = name,
                     view_email = mail\<rparr>)
                (db (POST_api_auth_signup test_lib test_env test_world test_store ?r)) []"
    by blast
  then have "name = ''carol''" and "mail = ''c@x.com''"
    by simp_all
  with login signup_carol show ?thesis
    by (simp add: w test_secret seconds_test_world)
qed

end
